theory Spec2Isabelle
  imports Complex_Main "HOL-Library.Log_Nat" "HOL-Library.Monad_Syntax"
begin

section \<open>JavaScript numbers\<close>

text \<open>
  A JavaScript number is an IEEE-754 double. The finite doubles are modelled by the
  rationals they denote; \<open>NaN\<close> and the two infinities are values of their own. The
  model has one zero: \<open>+0\<close> and \<open>-0\<close> are identified, which none of the operations
  server.js applies (\<open>===\<close>, truthiness, \<open>>\<close>, \<open>*\<close>, \<open>/\<close> by 1000, \<open>Math.round\<close>,
  \<open>Math.floor\<close>, conversion to a string) can tell apart.
\<close>

datatype jsnum = Fin rat | NaN | PInf | NInf

definition pow2 :: "int \<Rightarrow> rat" where
  "pow2 e = (if 0 \<le> e then 2 ^ nat e else 1 / 2 ^ nat (- e))"

text \<open>The exponent of the leading bit of a positive rational: \<open>2^k \<le> q < 2^(k+1)\<close>.\<close>

definition ilog2 :: "rat \<Rightarrow> int" where
  "ilog2 q =
     (let (n, d) = quotient_of q; k = bitlen n - bitlen d
      in if pow2 k \<le> q then k else k - 1)"

definition round_half_even :: "rat \<Rightarrow> int" where
  "round_half_even q =
     (let f = \<lfloor>q\<rfloor>; r = q - of_int f
      in if r < 1 / 2 then f
         else if 1 / 2 < r then f + 1
         else if even f then f else f + 1)"

text \<open>
  Rounding of an exact result to the nearest double, ties to even: 53 bits of
  significand, exponents down to the subnormal \<open>2^-1074\<close>, overflow to an infinity
  from \<open>2^1024\<close> on.
\<close>

definition to_double :: "rat \<Rightarrow> jsnum" where
  "to_double q =
     (if q = 0 then Fin 0
      else
        let a = \<bar>q\<bar>;
            e = max (ilog2 a - 52) (- 1074);
            v = of_int (round_half_even (a / pow2 e)) * pow2 e
        in if pow2 1024 \<le> v then (if 0 < q then PInf else NInf)
           else Fin (if 0 < q then v else - v))"

text \<open>The operator \<open>*\<close> on numbers.\<close>

fun num_mul :: "jsnum \<Rightarrow> jsnum \<Rightarrow> jsnum" where
  "num_mul (Fin a) (Fin b) = to_double (a * b)"
| "num_mul NaN _ = NaN"
| "num_mul _ NaN = NaN"
| "num_mul (Fin a) PInf = (if a = 0 then NaN else if 0 < a then PInf else NInf)"
| "num_mul (Fin a) NInf = (if a = 0 then NaN else if 0 < a then NInf else PInf)"
| "num_mul PInf (Fin b) = (if b = 0 then NaN else if 0 < b then PInf else NInf)"
| "num_mul NInf (Fin b) = (if b = 0 then NaN else if 0 < b then NInf else PInf)"
| "num_mul PInf PInf = PInf"
| "num_mul PInf NInf = NInf"
| "num_mul NInf PInf = NInf"
| "num_mul NInf NInf = PInf"

text \<open>
  The operator \<open>/\<close> on numbers. A zero divisor is read as \<open>+0\<close>; server.js divides
  by the literal 1000 only.
\<close>

fun num_div :: "jsnum \<Rightarrow> jsnum \<Rightarrow> jsnum" where
  "num_div (Fin a) (Fin b) =
     (if b = 0 then (if a = 0 then NaN else if 0 < a then PInf else NInf)
      else to_double (a / b))"
| "num_div NaN _ = NaN"
| "num_div _ NaN = NaN"
| "num_div (Fin a) PInf = Fin 0"
| "num_div (Fin a) NInf = Fin 0"
| "num_div PInf (Fin b) = (if 0 \<le> b then PInf else NInf)"
| "num_div NInf (Fin b) = (if 0 \<le> b then NInf else PInf)"
| "num_div PInf PInf = NaN"
| "num_div PInf NInf = NaN"
| "num_div NInf PInf = NaN"
| "num_div NInf NInf = NaN"

text \<open>\<open>Math.round\<close>: the nearest integer, a tie towards \<open>+\<infinity>\<close>.\<close>

fun Math_round :: "jsnum \<Rightarrow> jsnum" where
  "Math_round (Fin q) = Fin (of_int \<lfloor>q + 1 / 2\<rfloor>)"
| "Math_round x = x"

fun Math_floor :: "jsnum \<Rightarrow> jsnum" where
  "Math_floor (Fin q) = Fin (of_int \<lfloor>q\<rfloor>)"
| "Math_floor x = x"

section \<open>Decimal digits\<close>

definition digit_char :: "nat \<Rightarrow> char" where
  "digit_char n = ''0123456789'' ! (n mod 10)"

function dec :: "nat \<Rightarrow> string" where
  "dec n = (if n < 10 then [digit_char n] else dec (n div 10) @ [digit_char n])"
  by pat_completeness auto
termination
  by (relation "measure id") auto

declare dec.simps [simp del]

definition dec_int :: "int \<Rightarrow> string" where
  "dec_int i = (if i < 0 then CHR ''-'' # dec (nat (- i)) else dec (nat i))"

section \<open>JavaScript values\<close>

text \<open>
  What \<open>response.json()\<close> hands to server.js is any JSON value. \<open>JUndefined\<close> is the
  value a read of a missing property gives. A string is the list of its code units; an
  object is the list of its own properties, and the first binding of a key is the one
  read.
\<close>

datatype jsval =
    JUndefined
  | JNull
  | JBool bool
  | JNum jsnum
  | JStr string
  | JArr "jsval list"
  | JObj "(string \<times> jsval) list"

text \<open>Truthiness, as \<open>if\<close>, \<open>&&\<close>, \<open>||\<close>, \<open>!\<close> and \<open>?:\<close> test it.\<close>

fun truthy :: "jsval \<Rightarrow> bool" where
  "truthy JUndefined = False"
| "truthy JNull = False"
| "truthy (JBool b) = b"
| "truthy (JNum x) = (x \<noteq> Fin 0 \<and> x \<noteq> NaN)"
| "truthy (JStr s) = (s \<noteq> [])"
| "truthy (JArr xs) = True"
| "truthy (JObj kvs) = True"

fun nullish :: "jsval \<Rightarrow> bool" where
  "nullish JUndefined = True"
| "nullish JNull = True"
| "nullish v = False"

definition is_digit :: "char \<Rightarrow> bool" where
  "is_digit c = (c \<in> set ''0123456789'')"

definition digit_val :: "char \<Rightarrow> nat" where
  "digit_val c = of_char c - 48"

text \<open>A property key that is a canonical array index: \<open>''0''\<close>, \<open>''17''\<close>, not \<open>''017''\<close>.\<close>

definition array_index :: "string \<Rightarrow> nat option" where
  "array_index k =
     (if k \<noteq> [] \<and> list_all is_digit k \<and> (k = ''0'' \<or> hd k \<noteq> CHR ''0'')
      then Some (foldl (\<lambda>n c. 10 * n + digit_val c) 0 k) else None)"

text \<open>
  The value of the property \<open>k\<close> of a value that is neither \<open>undefined\<close> nor \<open>null\<close>:
  an own property of an object, an element or the length of an array or of a string,
  and \<open>undefined\<close> for everything else. (None of the property names server.js reads is
  inherited from a prototype, but for \<open>substring\<close>, which is modelled as the call it is.)
\<close>

fun get_prop :: "jsval \<Rightarrow> string \<Rightarrow> jsval" where
  "get_prop (JObj kvs) k = (case map_of kvs k of Some v \<Rightarrow> v | None \<Rightarrow> JUndefined)"
| "get_prop (JArr xs) k =
     (if k = ''length'' then JNum (Fin (of_nat (length xs)))
      else case array_index k of
             Some i \<Rightarrow> if i < length xs then xs ! i else JUndefined
           | None \<Rightarrow> JUndefined)"
| "get_prop (JStr s) k =
     (if k = ''length'' then JNum (Fin (of_nat (length s)))
      else case array_index k of
             Some i \<Rightarrow> if i < length s then JStr [s ! i] else JUndefined
           | None \<Rightarrow> JUndefined)"
| "get_prop v k = JUndefined"

text \<open>
  \<open>v.k\<close> throws a TypeError when \<open>v\<close> is \<open>undefined\<close> or \<open>null\<close>; \<open>v?.k\<close> is
  \<open>undefined\<close> there. \<open>None\<close> is the thrown TypeError, the only exception the
  expressions of \<open>parseACRCloudResponse\<close> can throw.
\<close>

definition member :: "jsval \<Rightarrow> string \<Rightarrow> jsval option" where
  "member v k = (if nullish v then None else Some (get_prop v k))"

definition opt_member :: "jsval \<Rightarrow> string \<Rightarrow> jsval" where
  "opt_member v k = (if nullish v then JUndefined else get_prop v k)"

text \<open>
  \<open>s.substring(i, j)\<close>. Only a string has the method: on any other value the call
  throws a TypeError.
\<close>

definition substring :: "jsval \<Rightarrow> nat \<Rightarrow> nat \<Rightarrow> jsval option" where
  "substring v i j =
     (case v of
        JStr s \<Rightarrow>
          let a = min i (length s); b = min j (length s)
          in Some (JStr (take (max a b - min a b) (drop (min a b) s)))
      | _ \<Rightarrow> None)"

subsection \<open>Conversions\<close>

text \<open>
  Two conversions of ECMAScript are parameters of the model: the reading of a string as
  a number (\<open>StringToNumber\<close>), and the digits \<open>Number::toString\<close> gives to a number
  that is not a safe integer, where the standard leaves the implementation a choice.
\<close>

record engine =
  StringToNumber :: "string \<Rightarrow> jsnum"
  NumberDigits :: "rat \<Rightarrow> string"

definition NumberToString :: "engine \<Rightarrow> jsnum \<Rightarrow> string" where
  "NumberToString rt x =
     (case x of
        NaN \<Rightarrow> ''NaN''
      | PInf \<Rightarrow> ''Infinity''
      | NInf \<Rightarrow> ''-Infinity''
      | Fin q \<Rightarrow>
          if of_int \<lfloor>q\<rfloor> = q \<and> \<bar>q\<bar> < 2 ^ 53 then dec_int \<lfloor>q\<rfloor> else NumberDigits rt q)"

fun join_comma :: "string list \<Rightarrow> string" where
  "join_comma [] = []"
| "join_comma [s] = s"
| "join_comma (s # t # ss) = s @ '','' @ join_comma (t # ss)"

text \<open>
  \<open>ToString\<close>. An array is joined with commas, \<open>undefined\<close> and \<open>null\<close> elements
  giving the empty string. An object gives \<open>[object Object]\<close> through
  \<open>Object.prototype.toString\<close>, unless it has an own property \<open>toString\<close>: a JSON value
  is not callable, so the conversion throws a TypeError.
\<close>

fun ToString :: "engine \<Rightarrow> jsval \<Rightarrow> string option" where
  "ToString rt JUndefined = Some ''undefined''"
| "ToString rt JNull = Some ''null''"
| "ToString rt (JBool b) = Some (if b then ''true'' else ''false'')"
| "ToString rt (JNum x) = Some (NumberToString rt x)"
| "ToString rt (JStr s) = Some s"
| "ToString rt (JArr xs) =
     map_option join_comma
       (those (map (\<lambda>x. if nullish x then Some [] else ToString rt x) xs))"
| "ToString rt (JObj kvs) =
     (if map_of kvs ''toString'' = None then Some ''[object Object]'' else None)"

text \<open>\<open>ToNumber\<close>, an array or an object through its string.\<close>

fun ToNumber :: "engine \<Rightarrow> jsval \<Rightarrow> jsnum option" where
  "ToNumber rt JUndefined = Some NaN"
| "ToNumber rt JNull = Some (Fin 0)"
| "ToNumber rt (JBool b) = Some (Fin (if b then 1 else 0))"
| "ToNumber rt (JNum x) = Some x"
| "ToNumber rt (JStr s) = Some (StringToNumber rt s)"
| "ToNumber rt v = map_option (StringToNumber rt) (ToString rt v)"

text \<open>\<open>v > c\<close> for a number \<open>c\<close>: the comparison of \<open>ToNumber v\<close> with \<open>c\<close>, false on \<open>NaN\<close>.\<close>

definition js_gt :: "engine \<Rightarrow> jsval \<Rightarrow> rat \<Rightarrow> bool option" where
  "js_gt rt v c =
     do { n \<leftarrow> ToNumber rt v;
          Some (case n of Fin q \<Rightarrow> c < q | PInf \<Rightarrow> True | _ \<Rightarrow> False) }"

section \<open>The response normalizer: \<open>parseACRCloudResponse\<close>\<close>

text \<open>\<open>data.metadata.music\<close>, and the match \<open>data.metadata.music[0]\<close>.\<close>

definition music_of :: "jsval \<Rightarrow> jsval" where
  "music_of data = get_prop (get_prop data ''metadata'') ''music''"

definition first_match :: "jsval \<Rightarrow> jsval" where
  "first_match data = get_prop (music_of data) ''0''"

text \<open>
  \<open>data && data.status && data.status.code === c\<close>. Each read is behind the test of
  the value it reads from, so none can throw.
\<close>

definition has_code :: "jsval \<Rightarrow> rat \<Rightarrow> bool" where
  "has_code data c =
     (truthy data \<and> truthy (get_prop data ''status'') \<and>
      get_prop (get_prop data ''status'') ''code'' = JNum (Fin c))"

text \<open>
  The condition of the first branch (line 111):
  \<open>data && data.status && data.status.code === 0 && data.metadata &&
  data.metadata.music && data.metadata.music.length > 0\<close>.
\<close>

definition success_guard :: "engine \<Rightarrow> jsval \<Rightarrow> bool option" where
  "success_guard rt data =
     (if has_code data 0 \<and> truthy (get_prop data ''metadata'') \<and> truthy (music_of data)
      then js_gt rt (get_prop (music_of data) ''length'') 0
      else Some False)"

text \<open>The properties of the \<open>song\<close> object literal (lines 117 to 128), one by one.\<close>

definition song_title :: "jsval \<Rightarrow> jsval option" where
  "song_title music =
     do { t \<leftarrow> member music ''title'';
          Some (if truthy t then t else JStr ''Unknown Title'') }"

definition song_artist :: "engine \<Rightarrow> jsval \<Rightarrow> jsval option" where
  "song_artist rt music =
     do { artists \<leftarrow> member music ''artists'';
          if truthy artists
          then do { len \<leftarrow> member artists ''length'';
                    nonempty \<leftarrow> js_gt rt len 0;
                    if nonempty
                    then do { a \<leftarrow> member artists ''0''; member a ''name'' }
                    else Some (JStr ''Unknown Artist'') }
          else Some (JStr ''Unknown Artist'') }"

definition song_album :: "jsval \<Rightarrow> jsval option" where
  "song_album music =
     do { album \<leftarrow> member music ''album'';
          if truthy album then member album ''name'' else Some (JStr ''Unknown Album'') }"

definition song_year :: "jsval \<Rightarrow> jsval option" where
  "song_year music =
     do { release_date \<leftarrow> member music ''release_date'';
          if truthy release_date then substring release_date 0 4
          else Some (JStr ''Unknown'') }"

definition song_confidence :: "engine \<Rightarrow> jsval \<Rightarrow> jsval option" where
  "song_confidence rt music =
     do { score \<leftarrow> member music ''score'';
          x \<leftarrow> ToNumber rt score;
          let r = JNum (Math_round (num_mul x (Fin 100)));
          Some (if truthy r then r else JNum (Fin 95)) }"

definition song_duration :: "engine \<Rightarrow> jsval \<Rightarrow> jsval option" where
  "song_duration rt music =
     do { duration_ms \<leftarrow> member music ''duration_ms'';
          if truthy duration_ms
          then do { x \<leftarrow> ToNumber rt duration_ms;
                    Some (JNum (Math_floor (num_div x (Fin 1000)))) }
          else Some JNull }"

definition song_spotify_url :: "jsval \<Rightarrow> jsval option" where
  "song_spotify_url music =
     do { em \<leftarrow> member music ''external_metadata'';
          Some (opt_member (opt_member (opt_member (opt_member em
                  ''spotify'') ''track'') ''external_urls'') ''spotify'') }"

definition song_youtube_url :: "engine \<Rightarrow> jsval \<Rightarrow> jsval option" where
  "song_youtube_url rt music =
     do { em \<leftarrow> member music ''external_metadata'';
          if truthy (opt_member (opt_member em ''youtube'') ''vid'')
          then do { youtube \<leftarrow> member em ''youtube'';
                    vid \<leftarrow> member youtube ''vid'';
                    s \<leftarrow> ToString rt vid;
                    Some (JStr (''https://www.youtube.com/watch?v='' @ s)) }
          else Some JNull }"

definition song_apple_url :: "jsval \<Rightarrow> jsval option" where
  "song_apple_url music =
     do { em \<leftarrow> member music ''external_metadata'';
          Some (opt_member (opt_member em ''apple_music'') ''url'') }"

definition song_cover_art :: "jsval \<Rightarrow> jsval option" where
  "song_cover_art music =
     do { album \<leftarrow> member music ''album'';
          let a = opt_member album ''artwork_url_500'';
          Some (if truthy a then a else opt_member album ''artwork_url'') }"

definition song_preview_url :: "jsval \<Rightarrow> jsval option" where
  "song_preview_url music =
     do { em \<leftarrow> member music ''external_metadata'';
          Some (opt_member (opt_member (opt_member em
                  ''spotify'') ''track'') ''preview_url'') }"

text \<open>The \<open>song\<close> object literal.\<close>

definition song_of :: "engine \<Rightarrow> jsval \<Rightarrow> jsval option" where
  "song_of rt music =
     do { title \<leftarrow> song_title music;
          artist \<leftarrow> song_artist rt music;
          album \<leftarrow> song_album music;
          year \<leftarrow> song_year music;
          confidence \<leftarrow> song_confidence rt music;
          duration \<leftarrow> song_duration rt music;
          spotify_url \<leftarrow> song_spotify_url music;
          youtube_url \<leftarrow> song_youtube_url rt music;
          apple_url \<leftarrow> song_apple_url music;
          cover_art \<leftarrow> song_cover_art music;
          preview_url \<leftarrow> song_preview_url music;
          Some (JObj
            [(''title'', title), (''artist'', artist), (''album'', album), (''year'', year),
             (''confidence'', confidence), (''duration'', duration),
             (''spotify_url'', spotify_url), (''youtube_url'', youtube_url),
             (''apple_url'', apple_url), (''cover_art'', cover_art),
             (''preview_url'', preview_url), (''isReal'', JBool True)]) }"

text \<open>The four failure objects.\<close>

definition failure_code :: "string \<Rightarrow> rat \<Rightarrow> jsval" where
  "failure_code msg c =
     JObj [(''success'', JBool False), (''error'', JStr msg), (''code'', JNum (Fin c))]"

definition unknown_format :: "jsval \<Rightarrow> jsval" where
  "unknown_format data =
     JObj [(''success'', JBool False), (''error'', JStr ''Unknown response format''),
           (''data'', data)]"

text \<open>The function (lines 110 to 156). \<open>None\<close>: the call throws.\<close>

definition parseACRCloudResponse :: "engine \<Rightarrow> jsval \<Rightarrow> jsval option" where
  "parseACRCloudResponse rt data =
     do { matched \<leftarrow> success_guard rt data;
          if matched
          then do { music \<leftarrow> member (music_of data) ''0'';
                    song \<leftarrow> song_of rt music;
                    Some (JObj [(''success'', JBool True), (''song'', song)]) }
          else if has_code data 1001
          then Some (failure_code ''No music found in database'' 1001)
          else if has_code data 3001
          then Some (failure_code ''Invalid access key'' 3001)
          else if has_code data 3003
          then Some (failure_code ''Rate limit exceeded'' 3003)
          else Some (unknown_format data) }"

section \<open>The identification endpoint: \<open>app.post('/api/identify')\<close>\<close>

text \<open>
  \<open>req.file\<close> as multer's memory storage leaves it: its \<open>size\<close> is the length of its
  \<open>buffer\<close>. \<open>acrcloudConfig\<close>: the two credentials come from the environment, where a
  variable is a string or is not set.
\<close>

record upload =
  originalname :: string
  mimetype :: string
  buffer :: string

definition file_size :: "upload \<Rightarrow> nat" where
  "file_size f = length (buffer f)"

record config =
  host :: string
  access_key :: "string option"
  access_secret :: "string option"
  endpoint :: string

definition acrcloudConfig :: "string option \<Rightarrow> string option \<Rightarrow> config" where
  "acrcloudConfig key secret =
     \<lparr>host = ''identify-ap-southeast-1.acrcloud.com'', access_key = key,
      access_secret = secret, endpoint = ''/v1/identify''\<rparr>"

text \<open>\<open>!v\<close> for a variable of the environment: not set, or the empty string.\<close>

definition unset :: "string option \<Rightarrow> bool" where
  "unset v = (case v of None \<Rightarrow> True | Some s \<Rightarrow> s = [])"

text \<open>The text a template literal or a form field gives to a variable of the environment.\<close>

definition env_text :: "string option \<Rightarrow> string" where
  "env_text v = (case v of None \<Rightarrow> ''undefined'' | Some s \<Rightarrow> s)"

datatype form_value = Text string | File string string string

datatype event =
    Signed string string
  | Fetched string "(string \<times> form_value) list"

text \<open>
  What \<open>fetch\<close> and \<open>response.json()\<close> come back with: a rejection with its message, or
  the HTTP status and the body, parsed or not parseable.
\<close>

datatype fetched = Rejected string | Response nat "string + jsval"

text \<open>
  The surroundings of a request: the keyed digest of Node's \<open>crypto\<close>
  (\<open>createHmac('sha1', key).update(text, 'utf8').digest('base64')\<close>); the clock, as the
  readings that the first, the second, ... call of \<open>Date.now()\<close> during the request
  gives; the provider behind \<open>fetch\<close>; the message V8 gives the TypeError that
  \<open>parseACRCloudResponse\<close> throws on a reply; and whether the parser under multer refuses
  a file of exactly the size limit, which depends on its version (a longer file it
  always refuses).
\<close>

record platform =
  hmac_sha1_base64 :: "string \<Rightarrow> string \<Rightarrow> string"
  Date_now :: "nat \<Rightarrow> jsnum"
  fetch :: "string \<Rightarrow> (string \<times> form_value) list \<Rightarrow> fetched"
  type_error_message :: "jsval \<Rightarrow> string"
  refuses_at_limit :: bool

text \<open>
  The body of a request, as the upload middleware sees it: the files of a multipart
  body in their order, each under its field name (none when the body is not multipart
  or holds no file), or a body that a parser gives up on, with the code of its error.
\<close>

datatype request = Unreadable string | Body "(string \<times> upload) list"

datatype upload_error = LIMIT_FILE_SIZE | LIMIT_UNEXPECTED_FILE | PARSE_ERROR string

text \<open>
  A reply is a status with a JSON body, sent by the handler; or, when a middleware
  passes an error on and the handler does not run, the answer of Express's default
  error handler to that error.
\<close>

datatype http_reply = Reply nat jsval | Unhandled upload_error

text \<open>The limit of lines 14 to 17: \<open>fileSize: 10 * 1024 * 1024\<close>.\<close>

definition fileSize :: nat where
  "fileSize = 10 * 1024 * 1024"

text \<open>
  \<open>upload.single(field)\<close> with this limit, as multer does it: a file part without a
  file name is passed over; a file under another field name, or a second file, is an
  unexpected file; a file over the limit is refused; without a file \<open>req.file\<close> stays
  \<open>undefined\<close>. On an error the handler is not called.
\<close>

definition upload_single :: "platform \<Rightarrow> string \<Rightarrow> request \<Rightarrow> upload_error + upload option" where
  "upload_single pf field req =
     (case req of
        Unreadable code \<Rightarrow> Inl (PARSE_ERROR code)
      | Body parts \<Rightarrow>
          (case filter (\<lambda>(name, f). originalname f \<noteq> []) parts of
             [] \<Rightarrow> Inr None
           | (name, f) # rest \<Rightarrow>
               if name \<noteq> field then Inl LIMIT_UNEXPECTED_FILE
               else if fileSize < file_size f \<or> (refuses_at_limit pf \<and> file_size f = fileSize)
               then Inl LIMIT_FILE_SIZE
               else if rest \<noteq> [] then Inl LIMIT_UNEXPECTED_FILE
               else Inr (Some f)))"

definition generateSignature :: "platform \<Rightarrow> string \<Rightarrow> string \<Rightarrow> string" where
  "generateSignature pf stringToSign secret = hmac_sha1_base64 pf secret stringToSign"

text \<open>The template literal of line 60.\<close>

definition stringToSign :: "engine \<Rightarrow> string \<Rightarrow> string \<Rightarrow> jsnum \<Rightarrow> string" where
  "stringToSign rt endpoint_path key timestamp =
     ''POST\<newline>'' @ endpoint_path @ ''\<newline>'' @ key @ ''\<newline>audio\<newline>1\<newline>'' @
     NumberToString rt timestamp"

definition internal_error :: "string \<Rightarrow> http_reply" where
  "internal_error msg =
     Reply 500 (JObj [(''error'', JStr ''Internal server error''), (''message'', JStr msg)])"

text \<open>
  The second half of the handler (lines 86 to 107): the reply it sends for what \<open>fetch\<close>
  came back with. A rejection and a TypeError of \<open>parseACRCloudResponse\<close> end in the
  \<open>catch\<close> block.
\<close>

definition respond :: "engine \<Rightarrow> platform \<Rightarrow> fetched \<Rightarrow> http_reply" where
  "respond rt pf outcome =
     (case outcome of
        Rejected msg \<Rightarrow> internal_error msg
      | Response status (Inl msg) \<Rightarrow> internal_error msg
      | Response status (Inr data) \<Rightarrow>
          if \<not> (200 \<le> status \<and> status \<le> 299)
          then Reply status (JObj [(''error'', JStr ''ACRCloud API error''), (''details'', data)])
          else (case parseACRCloudResponse rt data of
                  None \<Rightarrow> internal_error (type_error_message pf data)
                | Some result \<Rightarrow> Reply 200 result))"

text \<open>
  The handler (lines 42 to 108), given \<open>req.file\<close>: the calls it makes to the signer and
  to the provider, in order, and the reply it sends. \<open>Date.now()\<close> is called once
  (line 59): the first reading of the clock. Logging is left out.
\<close>

definition identify ::
  "engine \<Rightarrow> platform \<Rightarrow> config \<Rightarrow> upload option \<Rightarrow> event list \<times> http_reply" where
  "identify rt pf cfg file =
     (case file of
        None \<Rightarrow> ([], Reply 400 (JObj [(''error'', JStr ''No audio file provided'')]))
      | Some f \<Rightarrow>
          if unset (access_key cfg) \<or> unset (access_secret cfg)
          then ([], Reply 500 (JObj [(''error'', JStr ''ACRCloud API keys not configured'')]))
          else
            let timestamp = Math_floor (num_div (Date_now pf 0) (Fin 1000));
                to_sign = stringToSign rt (endpoint cfg) (env_text (access_key cfg)) timestamp;
                signature = generateSignature pf to_sign (env_text (access_secret cfg));
                formData =
                  [(''sample'',
                      File (buffer f)
                        (if originalname f \<noteq> [] then originalname f else ''audio.wav'')
                        (if mimetype f \<noteq> [] then mimetype f else ''audio/wav'')),
                   (''sample_bytes'', Text (NumberToString rt (Fin (of_nat (file_size f))))),
                   (''access_key'', Text (env_text (access_key cfg))),
                   (''data_type'', Text ''audio''),
                   (''signature_version'', Text ''1''),
                   (''signature'', Text signature),
                   (''timestamp'', Text (NumberToString rt timestamp))];
                apiUrl = ''https://'' @ host cfg @ endpoint cfg
            in ([Signed to_sign (env_text (access_secret cfg)), Fetched apiUrl formData],
                respond rt pf (fetch pf apiUrl formData)))"

text \<open>
  The route (line 42): \<open>upload.single('audio')\<close>, then the handler. An error of the
  middleware goes to Express's default error handler, as server.js installs no other.
\<close>

definition api_identify ::
  "engine \<Rightarrow> platform \<Rightarrow> config \<Rightarrow> request \<Rightarrow> event list \<times> http_reply" where
  "api_identify rt pf cfg req =
     (case upload_single pf ''audio'' req of
        Inl e \<Rightarrow> ([], Unhandled e)
      | Inr file \<Rightarrow> identify rt pf cfg file)"

section \<open>Notions the properties are stated with\<close>

text \<open>The number that a string of decimal digits denotes.\<close>

definition digits_value :: "string \<Rightarrow> nat" where
  "digits_value s = foldl (\<lambda>n c. 10 * n + digit_val c) 0 s"

text \<open>A property of the \<open>song\<close> object of a result.\<close>

definition song_field :: "jsval \<Rightarrow> string \<Rightarrow> jsval" where
  "song_field result k = get_prop (get_prop result ''song'') k"

text \<open>
  A path of property names read from a value: it misses a link when a value on the way
  is \<open>undefined\<close> or \<open>null\<close>, or the last property is not there.
\<close>

fun missing_link :: "jsval \<Rightarrow> string list \<Rightarrow> bool" where
  "missing_link v [] = (v = JUndefined)"
| "missing_link v (k # ks) = (nullish v \<or> missing_link (get_prop v k) ks)"

fun join_lines :: "string list \<Rightarrow> string" where
  "join_lines [] = []"
| "join_lines [s] = s"
| "join_lines (s # t # ss) = s @ ''\<newline>'' @ join_lines (t # ss)"

section \<open>Replies and requests used as examples\<close>

text \<open>A reply with status code 0 and one match: the shape the first branch is written for.\<close>

definition success_reply :: "jsval \<Rightarrow> jsval" where
  "success_reply m =
     JObj [(''status'', JObj [(''code'', JNum (Fin 0)), (''msg'', JStr ''Success'')]),
           (''metadata'', JObj [(''music'', JArr [m])])]"

text \<open>A match with a score of 0.97 (the double nearest to it) and no Spotify or Apple links.\<close>

definition match_song_a :: jsval where
  "match_song_a =
     JObj [(''title'', JStr ''Song A''),
           (''artists'', JArr [JObj [(''name'', JStr ''Artist A'')]]),
           (''album'', JObj [(''name'', JStr ''Album A'')]),
           (''release_date'', JStr ''2019-05-17''),
           (''score'', JNum (to_double (97 / 100))),
           (''duration_ms'', JNum (Fin 215999)),
           (''external_metadata'', JObj [(''youtube'', JObj [(''vid'', JStr ''abc123'')])])]"

definition result_song_a :: jsval where
  "result_song_a =
     JObj [(''success'', JBool True),
           (''song'',
            JObj [(''title'', JStr ''Song A''), (''artist'', JStr ''Artist A''),
                  (''album'', JStr ''Album A''), (''year'', JStr ''2019''),
                  (''confidence'', JNum (Fin 97)), (''duration'', JNum (Fin 215)),
                  (''spotify_url'', JUndefined),
                  (''youtube_url'', JStr ''https://www.youtube.com/watch?v=abc123''),
                  (''apple_url'', JUndefined), (''cover_art'', JUndefined),
                  (''preview_url'', JUndefined), (''isReal'', JBool True)])]"

definition example_upload :: upload where
  "example_upload =
     \<lparr>originalname = ''clip.wav'', mimetype = ''audio/wav'', buffer = ''RIFF''\<rparr>"

text \<open>
  A digest that shows what it was given; a clock at 1700000000123 ms that moves on by a
  second with every reading; a provider that cannot be reached.
\<close>

definition example_platform :: platform where
  "example_platform =
     \<lparr>hmac_sha1_base64 = (\<lambda>key text. ''hmac('' @ key @ '','' @ text @ '')''),
      Date_now = (\<lambda>i. Fin (of_nat (1700000000123 + 1000 * i))),
      fetch = (\<lambda>url form. Rejected ''connect ECONNREFUSED''),
      type_error_message = (\<lambda>data. ''TypeError''),
      refuses_at_limit = False\<rparr>"

section \<open>Facts about the model\<close>

subsection \<open>Numbers\<close>

lemma round_half_even_int [simp]: "round_half_even (of_int z) = z"
  by (simp add: round_half_even_def)

text \<open>An integer below \<open>2^53\<close> is a double: rounding leaves it as it is.\<close>

lemma to_double_of_int:
  assumes "0 < n" and "n < 2 ^ 53"
  shows "to_double (of_int n) = Fin (of_int n)"
proof -
  define k where "k = bitlen n - 1"
  from bitlen_bounds [OF assms(1)] have lo: "2 ^ nat (bitlen n - 1) \<le> n" by simp
  from assms(1) have b1: "1 \<le> bitlen n" by (simp add: bitlen_alt_def)
  then have k0: "0 \<le> k" by (simp add: k_def)
  from lo assms(2) have lt: "(2::int) ^ nat k < 2 ^ 53" by (simp add: k_def)
  have "nat k < 53" using power_less_imp_less_exp [OF _ lt] by simp
  with k0 have k52: "k \<le> 52" by simp
  have "(2::rat) ^ nat k = of_int (2 ^ nat k)" by simp
  also from lo have "\<dots> \<le> of_int n" unfolding k_def of_int_le_iff .
  finally have p: "pow2 k \<le> of_int n" using k0 by (simp add: pow2_def)
  have one: "bitlen 1 = 1" by (simp add: bitlen_alt_def)
  have il: "ilog2 (of_int n) = k"
    using p by (simp add: ilog2_def k_def one)
  have e: "max (k - 52) (- 1074) = k - 52" using k0 by simp
  define j where "j = nat (52 - k)"
  have pe: "pow2 (k - 52) = 1 / 2 ^ j"
  proof (cases "k = 52")
    case True
    then show ?thesis by (simp add: pow2_def j_def)
  next
    case False
    with k52 have "\<not> 0 \<le> k - 52" by simp
    then show ?thesis by (simp add: pow2_def j_def)
  qed
  have d: "of_int n / pow2 (k - 52) = (of_int (n * 2 ^ j) :: rat)"
    by (simp add: pe)
  have v: "(of_int (n * 2 ^ j) :: rat) * pow2 (k - 52) = of_int n"
    by (simp add: pe)
  have "(of_int n :: rat) < of_int (2 ^ 53)" using assms(2) unfolding of_int_less_iff .
  also have "\<dots> \<le> 2 ^ 1024" by simp
  finally have big: "\<not> pow2 1024 \<le> (of_int n :: rat)" by (simp add: pow2_def)
  from assms(1) have pos: "(0::rat) < of_int n" by simp
  then have ne: "(of_int n :: rat) \<noteq> 0" and ab: "\<bar>of_int n :: rat\<bar> = of_int n" by simp_all
  show ?thesis
    unfolding to_double_def Let_def ab il e d round_half_even_int v
    using ne pos big by simp
qed

lemma pow2_powi: "pow2 e = 2 powi e"
  by (simp add: pow2_def power_int_def inverse_eq_divide power_one_over)

lemma pow2_pos [simp]: "0 < pow2 e"
  by (simp add: pow2_powi)

lemma pow2_diff: "pow2 (a - b) = pow2 a / pow2 b"
  by (simp add: pow2_powi power_int_diff)

lemma pow2_nat: "0 \<le> a \<Longrightarrow> pow2 a = 2 ^ nat a"
  by (simp add: pow2_def)

lemma pow2_mono: "a \<le> b \<Longrightarrow> pow2 a \<le> pow2 b"
  by (simp add: pow2_powi power_int_increasing)

text \<open>The leading bit: \<open>pow2 (ilog2 q) \<le> q\<close>.\<close>

lemma ilog2_le:
  assumes "0 < q"
  shows "pow2 (ilog2 q) \<le> q"
proof -
  obtain a b where ab: "quotient_of q = (a, b)" by (cases "quotient_of q")
  then have b: "0 < b" and q: "q = of_int a / of_int b"
    using quotient_of_denom_pos quotient_of_div by auto
  with assms have a: "0 < a" by (simp add: zero_less_divide_iff)
  define k where "k = bitlen a - bitlen b"
  show ?thesis
  proof (cases "pow2 k \<le> q")
    case True
    then show ?thesis by (simp add: ilog2_def ab k_def)
  next
    case False
    then have il: "ilog2 q = k - 1" by (simp add: ilog2_def ab k_def)
    from bitlen_bounds [OF a] have "2 ^ nat (bitlen a - 1) \<le> a" by simp
    then have "(of_int (2 ^ nat (bitlen a - 1)) :: rat) \<le> of_int a" unfolding of_int_le_iff .
    moreover from a have "0 \<le> bitlen a - 1" by (simp add: bitlen_alt_def)
    ultimately have lo: "pow2 (bitlen a - 1) \<le> of_int a" by (simp add: pow2_nat)
    from bitlen_bounds [OF b] have "b < 2 ^ nat (bitlen b)" by simp
    then have "(of_int b :: rat) < of_int (2 ^ nat (bitlen b))" unfolding of_int_less_iff .
    then have hi: "of_int b \<le> pow2 (bitlen b)" by (simp add: pow2_nat bitlen_nonneg)
    have "pow2 (k - 1) = pow2 (bitlen a - 1) / pow2 (bitlen b)"
      unfolding k_def using pow2_diff [of "bitlen a - 1" "bitlen b"] by (simp add: algebra_simps)
    also have "\<dots> \<le> of_int a / of_int b"
      using lo hi a b by (intro frac_le) simp_all
    also have "\<dots> = q" by (simp add: q)
    finally show ?thesis unfolding il .
  qed
qed

lemma round_half_even_error: "\<bar>of_int (round_half_even x) - x\<bar> \<le> 1 / 2"
proof -
  have f: "of_int \<lfloor>x\<rfloor> \<le> x" "x < of_int \<lfloor>x\<rfloor> + 1" by linarith+
  consider "x - of_int \<lfloor>x\<rfloor> < 1 / 2" | "1 / 2 < x - of_int \<lfloor>x\<rfloor>" | "x - of_int \<lfloor>x\<rfloor> = 1 / 2"
    by linarith
  then show ?thesis
  proof cases
    case 1
    then have h: "round_half_even x = \<lfloor>x\<rfloor>" by (simp add: round_half_even_def Let_def)
    show ?thesis unfolding h using f 1 by linarith
  next
    case 2
    then have h: "round_half_even x = \<lfloor>x\<rfloor> + 1" by (simp add: round_half_even_def Let_def)
    show ?thesis unfolding h using f 2 by (simp add: abs_if; linarith?)
  next
    case 3
    then have "round_half_even x = \<lfloor>x\<rfloor> \<or> round_half_even x = \<lfloor>x\<rfloor> + 1"
      by (simp add: round_half_even_def Let_def)
    then show ?thesis
    proof
      assume h: "round_half_even x = \<lfloor>x\<rfloor>"
      show ?thesis unfolding h using f 3 by linarith
    next
      assume h: "round_half_even x = \<lfloor>x\<rfloor> + 1"
      show ?thesis unfolding h using f 3 by (simp add: abs_if; linarith?)
    qed
  qed
qed

text \<open>Rounding a positive number below \<open>2^53\<close> moves it by less than its \<open>2^-53\<close>th part.\<close>

lemma to_double_near:
  assumes "0 < q" and "q < 2 ^ 53"
  shows "\<exists>v. to_double q = Fin v \<and> \<bar>v - q\<bar> \<le> max (q / 2 ^ 53) (pow2 (- 1075))"
proof -
  define e where "e = max (ilog2 q - 52) (- 1074)"
  define v where "v = of_int (round_half_even (q / pow2 e)) * pow2 e"
  have ne: "pow2 e \<noteq> 0" by (simp add: pow2_powi)
  have "v - q = (of_int (round_half_even (q / pow2 e)) - q / pow2 e) * pow2 e"
    using ne by (simp add: v_def field_simps)
  then have "\<bar>v - q\<bar> = \<bar>of_int (round_half_even (q / pow2 e)) - q / pow2 e\<bar> * pow2 e"
    by (simp add: abs_mult abs_of_pos)
  also have "\<dots> \<le> 1 / 2 * pow2 e"
    by (intro mult_right_mono round_half_even_error) (simp add: less_imp_le)
  finally have err: "\<bar>v - q\<bar> \<le> pow2 e / 2" by simp
  have half: "pow2 e / 2 \<le> max (q / 2 ^ 53) (pow2 (- 1075))"
  proof (cases "ilog2 q - 52 \<le> - 1074")
    case True
    then have "e = - 1074" by (simp add: e_def)
    then have "pow2 e / 2 = pow2 (- 1075)"
      using pow2_diff [of "- 1074" 1] by (simp add: pow2_nat)
    then show ?thesis by simp
  next
    case False
    then have "e = ilog2 q - 52" by (simp add: e_def)
    then have "pow2 e / 2 = pow2 (ilog2 q) / 2 ^ 53"
      using pow2_diff [of "ilog2 q" 52] by (simp add: pow2_nat)
    also have "\<dots> \<le> q / 2 ^ 53"
      using ilog2_le [OF assms(1)] by (simp add: divide_right_mono)
    finally show ?thesis by simp
  qed
  have "max (q / 2 ^ 53) (pow2 (- 1075)) \<le> 1"
    using assms by (simp add: pow2_def)
  with err half have "v \<le> q + 1" by linarith
  also from assms(2) have "\<dots> < 2 ^ 1024" by simp
  finally have "\<not> pow2 1024 \<le> v" by (simp add: pow2_def)
  with assms(1) have "to_double q = Fin v"
    by (simp add: to_double_def Let_def e_def v_def)
  with err half show ?thesis by auto
qed


text \<open>Dividing a clock reading or a length in milliseconds by 1000 and rounding down.\<close>

lemma floor_div_1000:
  assumes "0 \<le> n" and "n < 2 ^ 53"
  shows "Math_floor (num_div (Fin (of_int n)) (Fin 1000)) = Fin (of_int (n div 1000))"
proof -
  define k where "k = n div 1000"
  define r where "r = n mod 1000"
  have n: "n = 1000 * k + r" and r: "0 \<le> r" "r < 1000" by (simp_all add: k_def r_def)
  have k0: "0 \<le> k" using assms(1) by (simp add: k_def pos_imp_zdiv_nonneg_iff)
  have "k \<le> n" using n r k0 by linarith
  with assms(2) have k1: "k < 2 ^ 53" by linarith
  note k = k0 k1
  have q: "(of_int n :: rat) / 1000 = of_int k + of_int r / 1000" by (simp add: n)
  show ?thesis
  proof (cases "r = 0")
    case True
    show ?thesis
    proof (cases "k = 0")
      case True
      with \<open>r = 0\<close> show ?thesis unfolding k_def [symmetric] by (simp add: q to_double_def)
    next
      case False
      with k have "0 < k" by simp
      from to_double_of_int [OF this k(2)] \<open>r = 0\<close> show ?thesis
        unfolding k_def [symmetric] by (simp add: q)
    qed
  next
    case False
    with r have r1: "1 \<le> r" "r \<le> 999" by simp_all
    then have rq: "(1::rat) / 1000 \<le> of_int r / 1000" "(of_int r :: rat) / 1000 \<le> 999 / 1000"
      by simp_all
    define x where "x = (of_int n :: rat) / 1000"
    have lo: "of_int k + 1 / 1000 \<le> x" and hi: "x \<le> of_int k + 999 / 1000"
      using rq by (simp_all add: x_def q)
    have "(0::rat) \<le> of_int k" using k0 by simp
    with lo have pos: "0 < x" by linarith
    have "(of_int n :: rat) < of_int (2 ^ 53)" using assms(2) unfolding of_int_less_iff .
    then have lt: "x * 1000 < 2 ^ 53" by (simp add: x_def)
    then have small: "x < 2 ^ 53" using pos by linarith
    from to_double_near [OF pos small] obtain v where
      v: "to_double x = Fin v" and e: "\<bar>v - x\<bar> \<le> max (x / 2 ^ 53) (pow2 (- 1075))"
      by blast
    have "x / 2 ^ 53 < 1 / 1000" using lt by (simp add: field_simps)
    moreover have "pow2 (- 1075) < 1 / 1000"
    proof -
      have "pow2 (- 1075) \<le> pow2 (- 10)" by (rule pow2_mono) simp
      also have "\<dots> < 1 / 1000" by (simp add: pow2_def)
      finally show ?thesis .
    qed
    ultimately have "\<bar>v - x\<bar> < 1 / 1000" using e by linarith
    with lo hi have "of_int k < v" "v < of_int k + 1" by linarith+
    then have "\<lfloor>v\<rfloor> = k" by linarith
    with v show ?thesis unfolding k_def [symmetric] by (simp add: x_def)
  qed
qed

lemma NumberToString_int:
  assumes "\<bar>t\<bar> < 2 ^ 53"
  shows "NumberToString rt (Fin (of_int t)) = dec_int t"
proof -
  from assms have "(of_int \<bar>t\<bar> :: rat) < of_int (2 ^ 53)" unfolding of_int_less_iff .
  then have "\<bar>(of_int t :: rat)\<bar> < 2 ^ 53" by simp
  then show ?thesis by (simp add: NumberToString_def)
qed

text \<open>The arithmetic of the examples, evaluated.\<close>

lemma round_97: "Math_round (num_mul (to_double (97 / 100)) (Fin 100)) = Fin 97"
  by code_simp

lemma floor_215: "Math_floor (to_double (215999 / 1000)) = Fin 215"
  using floor_div_1000 [of 215999] by simp

lemma floor_timestamp: "Math_floor (to_double (1700000000123 / 1000)) = Fin 1700000000"
  using floor_div_1000 [of 1700000000123] by simp

subsection \<open>Decimal digits\<close>

lemma below_10_cases:
  fixes m :: nat
  assumes "m < 10"
  shows "m = 0 \<or> m = 1 \<or> m = 2 \<or> m = 3 \<or> m = 4 \<or> m = 5 \<or> m = 6 \<or> m = 7 \<or> m = 8 \<or> m = 9"
  using assms by arith

lemma digit_val_digit_char: "digit_val (digit_char n) = n mod 10"
  using below_10_cases [of "n mod 10"]
  by (auto simp: digit_char_def digit_val_def)

lemma is_digit_digit_char: "is_digit (digit_char n)"
  using below_10_cases [of "n mod 10"]
  by (auto simp: digit_char_def is_digit_def)

lemma digits_value_snoc: "digits_value (s @ [c]) = 10 * digits_value s + digit_val c"
  by (simp add: digits_value_def)

text \<open>The digits of a number denote it.\<close>

lemma dec_digits: "list_all is_digit (dec n) \<and> digits_value (dec n) = n"
proof (induction n rule: dec.induct)
  case (1 n)
  show ?case
  proof (cases "n < 10")
    case True
    then show ?thesis
      by (subst (1 2) dec.simps)
         (simp add: is_digit_digit_char digits_value_def digit_val_digit_char)
  next
    case False
    with 1 have ih: "list_all is_digit (dec (n div 10))" "digits_value (dec (n div 10)) = n div 10"
      by simp_all
    from False have d: "dec n = dec (n div 10) @ [digit_char n]"
      by (subst dec.simps) simp
    show ?thesis
      unfolding d by (simp add: ih is_digit_digit_char digits_value_snoc digit_val_digit_char)
  qed
qed

lemma digit_char_zero: "digit_char n = CHR ''0'' \<longleftrightarrow> n mod 10 = 0"
  using below_10_cases [of "n mod 10"]
  by (auto simp: digit_char_def)

lemma dec_canonical: "dec n \<noteq> [] \<and> (n \<noteq> 0 \<longrightarrow> hd (dec n) \<noteq> CHR ''0'')"
proof (induction n rule: dec.induct)
  case (1 n)
  show ?case
  proof (cases "n < 10")
    case True
    then show ?thesis
      by (subst (1 2) dec.simps) (simp add: digit_char_zero)
  next
    case False
    with 1 have ih: "dec (n div 10) \<noteq> []" "hd (dec (n div 10)) \<noteq> CHR ''0''"
      by simp_all
    from False have d: "dec n = dec (n div 10) @ [digit_char n]"
      by (subst dec.simps) simp
    show ?thesis
      unfolding d using ih by simp
  qed
qed

text \<open>The digits of a number are the one canonical way of writing it.\<close>

lemma array_index_dec: "array_index (dec n) = Some n"
proof -
  have "dec 0 = ''0''" by (simp add: dec.simps digit_char_def)
  with dec_canonical [of n] have "dec n = ''0'' \<or> hd (dec n) \<noteq> CHR ''0''"
    by (cases "n = 0") simp_all
  with dec_canonical [of n] dec_digits [of n] show ?thesis
    by (simp add: array_index_def digits_value_def)
qed

lemma NumberToString_nat:
  assumes "n < 2 ^ 53"
  shows "NumberToString rt (Fin (of_nat n)) = dec n"
proof -
  from assms have "\<bar>int n\<bar> < 2 ^ 53" by (simp add: nat_less_numeral_power_cancel_iff)
  from NumberToString_int [OF this, of rt] show ?thesis by (simp add: dec_int_def)
qed

subsection \<open>The upload middleware\<close>

lemma upload_single_accepts:
  assumes "upload_single pf field req = Inr (Some f)"
  shows "file_size f \<le> fileSize \<and> originalname f \<noteq> []"
proof -
  from assms obtain parts rest where
    p: "filter (\<lambda>(name, f). originalname f \<noteq> []) parts = (field, f) # rest" and
    "file_size f \<le> fileSize"
    by (auto simp: upload_single_def split: request.splits list.splits if_splits prod.splits)
  moreover have "originalname f \<noteq> []"
  proof -
    have "(field, f) \<in> set ((field, f) # rest)" by simp
    then have "(field, f) \<in> set (filter (\<lambda>(name, f). originalname f \<noteq> []) parts)"
      unfolding p [symmetric] .
    then show ?thesis by simp
  qed
  ultimately show ?thesis by simp
qed

lemma fileSize_safe: "fileSize < 2 ^ 53"
  by (simp add: fileSize_def)

subsection \<open>Reading properties\<close>

lemma truthy_not_nullish: "truthy v \<Longrightarrow> \<not> nullish v"
  by (cases v) auto

lemma get_prop_nullish [simp]: "nullish v \<Longrightarrow> get_prop v k = JUndefined"
  by (cases v) simp_all

lemma opt_member_eq [simp]: "opt_member v k = get_prop v k"
  by (cases v) (simp_all add: opt_member_def)

lemma member_eq [simp]: "\<not> nullish v \<Longrightarrow> member v k = Some (get_prop v k)"
  by (simp add: member_def)

lemma array_index_0 [simp]: "array_index ''0'' = Some 0"
  by (simp add: array_index_def is_digit_def digit_val_def)

lemma foldl_get_prop_undefined [simp]: "foldl get_prop JUndefined ks = JUndefined"
  by (induction ks) simp_all

lemma missing_link_undefined: "missing_link v ks \<Longrightarrow> foldl get_prop v ks = JUndefined"
  by (induction ks arbitrary: v) auto

lemma song_field_result [simp]:
  "song_field (JObj [(''success'', b), (''song'', s)]) k = get_prop s k"
  by (simp add: song_field_def)

subsection \<open>The branches of \<open>parseACRCloudResponse\<close>\<close>

lemma success_guard_True:
  "success_guard rt d = Some True \<Longrightarrow> has_code d 0 \<and> truthy (music_of d)"
  by (auto simp: success_guard_def split: if_splits)

lemma parse_success:
  assumes "parseACRCloudResponse rt d = Some r" and "success_guard rt d = Some True"
  shows "\<exists>s. song_of rt (first_match d) = Some s \<and> \<not> nullish (first_match d) \<and>
             r = JObj [(''success'', JBool True), (''song'', s)]"
proof -
  from assms(2) have "truthy (music_of d)" by (simp add: success_guard_True)
  then have m: "member (music_of d) ''0'' = Some (first_match d)"
    by (simp add: member_def first_match_def truthy_not_nullish)
  from assms m obtain s where s: "song_of rt (first_match d) = Some s"
    and r: "r = JObj [(''success'', JBool True), (''song'', s)]"
    by (auto simp: parseACRCloudResponse_def split: bind_splits)
  from s have "\<not> nullish (first_match d)"
    by (auto simp: song_of_def song_title_def member_def split: bind_splits if_splits)
  with s r show ?thesis by blast
qed

text \<open>Where the first branch is not taken, the codes are tried in the order of the source.\<close>

lemma parse_failure:
  assumes "success_guard rt d = Some False"
  shows "parseACRCloudResponse rt d =
           Some (if has_code d 1001 then failure_code ''No music found in database'' 1001
                 else if has_code d 3001 then failure_code ''Invalid access key'' 3001
                 else if has_code d 3003 then failure_code ''Rate limit exceeded'' 3003
                 else unknown_format d)"
  using assms by (simp add: parseACRCloudResponse_def)

lemma code_not_zero_guard:
  assumes "\<not> has_code d 0"
  shows "success_guard rt d = Some False"
  using assms by (simp add: success_guard_def)

text \<open>Status code 0 with an empty list of matches is an unknown format.\<close>

lemma empty_music_unknown_format:
  assumes "has_code d 0" and "music_of d = JArr []"
  shows "parseACRCloudResponse rt d = Some (unknown_format d)"
proof -
  from assms(2) have "success_guard rt d = Some False"
    by (simp add: success_guard_def js_gt_def)
  moreover from assms(1) have "\<not> has_code d 1001" "\<not> has_code d 3001" "\<not> has_code d 3003"
    by (auto simp: has_code_def)
  ultimately show ?thesis by (simp add: parse_failure)
qed

lemma song_of_fields:
  assumes "song_of rt m = Some s"
  shows "song_title m = Some (get_prop s ''title'')"
    and "song_artist rt m = Some (get_prop s ''artist'')"
    and "song_album m = Some (get_prop s ''album'')"
    and "song_year m = Some (get_prop s ''year'')"
    and "song_confidence rt m = Some (get_prop s ''confidence'')"
    and "song_duration rt m = Some (get_prop s ''duration'')"
    and "song_spotify_url m = Some (get_prop s ''spotify_url'')"
    and "song_youtube_url rt m = Some (get_prop s ''youtube_url'')"
    and "song_apple_url m = Some (get_prop s ''apple_url'')"
    and "song_cover_art m = Some (get_prop s ''cover_art'')"
    and "song_preview_url m = Some (get_prop s ''preview_url'')"
    and "get_prop s ''isReal'' = JBool True"
  using assms by (auto simp: song_of_def split: bind_splits)

lemma success_fields:
  assumes "parseACRCloudResponse rt d = Some r" and "success_guard rt d = Some True"
  shows "\<not> nullish (first_match d)"
    and "song_title (first_match d) = Some (song_field r ''title'')"
    and "song_artist rt (first_match d) = Some (song_field r ''artist'')"
    and "song_album (first_match d) = Some (song_field r ''album'')"
    and "song_year (first_match d) = Some (song_field r ''year'')"
    and "song_confidence rt (first_match d) = Some (song_field r ''confidence'')"
    and "song_duration rt (first_match d) = Some (song_field r ''duration'')"
    and "song_spotify_url (first_match d) = Some (song_field r ''spotify_url'')"
    and "song_youtube_url rt (first_match d) = Some (song_field r ''youtube_url'')"
    and "song_apple_url (first_match d) = Some (song_field r ''apple_url'')"
    and "song_preview_url (first_match d) = Some (song_field r ''preview_url'')"
    and "song_field r ''isReal'' = JBool True"
proof -
  from parse_success [OF assms] obtain s where
    s: "song_of rt (first_match d) = Some s" and n: "\<not> nullish (first_match d)"
    and r: "r = JObj [(''success'', JBool True), (''song'', s)]"
    by blast
  show "\<not> nullish (first_match d)" by (rule n)
  show "song_title (first_match d) = Some (song_field r ''title'')"
    using song_of_fields(1) [OF s] r by simp
  show "song_artist rt (first_match d) = Some (song_field r ''artist'')"
    using song_of_fields(2) [OF s] r by simp
  show "song_album (first_match d) = Some (song_field r ''album'')"
    using song_of_fields(3) [OF s] r by simp
  show "song_year (first_match d) = Some (song_field r ''year'')"
    using song_of_fields(4) [OF s] r by simp
  show "song_confidence rt (first_match d) = Some (song_field r ''confidence'')"
    using song_of_fields(5) [OF s] r by simp
  show "song_duration rt (first_match d) = Some (song_field r ''duration'')"
    using song_of_fields(6) [OF s] r by simp
  show "song_spotify_url (first_match d) = Some (song_field r ''spotify_url'')"
    using song_of_fields(7) [OF s] r by simp
  show "song_youtube_url rt (first_match d) = Some (song_field r ''youtube_url'')"
    using song_of_fields(8) [OF s] r by simp
  show "song_apple_url (first_match d) = Some (song_field r ''apple_url'')"
    using song_of_fields(9) [OF s] r by simp
  show "song_preview_url (first_match d) = Some (song_field r ''preview_url'')"
    using song_of_fields(11) [OF s] r by simp
  show "song_field r ''isReal'' = JBool True"
    using song_of_fields(12) [OF s] r by simp
qed

subsection \<open>The examples\<close>

lemma success_reply_guard [simp]: "success_guard rt (success_reply m) = Some True"
  by (simp add: success_reply_def success_guard_def has_code_def music_of_def js_gt_def)

lemma success_reply_match [simp]: "first_match (success_reply m) = m"
  by (simp add: success_reply_def first_match_def music_of_def)

lemma parse_success_reply:
  "parseACRCloudResponse rt (success_reply m) =
     (if nullish m then None
      else map_option (\<lambda>s. JObj [(''success'', JBool True), (''song'', s)]) (song_of rt m))"
proof -
  have "member (music_of (success_reply m)) ''0'' = Some m"
    by (simp add: success_reply_def music_of_def member_def)
  moreover have "nullish m \<Longrightarrow> song_of rt m = None"
    by (simp add: song_of_def song_title_def member_def)
  ultimately show ?thesis
    by (cases "song_of rt m") (auto simp: parseACRCloudResponse_def)
qed

lemmas song_defs =
  song_of_def song_title_def song_artist_def song_album_def song_year_def
  song_confidence_def song_duration_def song_spotify_url_def song_youtube_url_def
  song_apple_url_def song_cover_art_def song_preview_url_def

lemma parse_song_a: "parseACRCloudResponse rt (success_reply match_song_a) = Some result_song_a"
proof -
  have "song_of rt match_song_a = Some (get_prop result_song_a ''song'')"
    by (simp add: song_defs match_song_a_def result_song_a_def js_gt_def substring_def
          round_97 floor_215)
  then show ?thesis
    by (simp add: parse_success_reply result_song_a_def) (simp add: match_song_a_def)
qed

lemma song_a_match:
  "get_prop match_song_a ''title'' = JStr ''Song A''"
  "get_prop match_song_a ''artists'' = JArr [JObj [(''name'', JStr ''Artist A'')]]"
  "get_prop match_song_a ''album'' = JObj [(''name'', JStr ''Album A'')]"
  "get_prop match_song_a ''release_date'' = JStr ''2019-05-17''"
  "get_prop match_song_a ''score'' = JNum (to_double (97 / 100))"
  "get_prop match_song_a ''duration_ms'' = JNum (Fin 215999)"
  "get_prop match_song_a ''external_metadata'' =
     JObj [(''youtube'', JObj [(''vid'', JStr ''abc123'')])]"
  by (simp_all add: match_song_a_def)

section \<open>The normalizer's outcomes\<close>

text \<open>
  Claim C1: for every provider reply the normalizer emits exactly one outcome, Success
  when \<open>status.code\<close> is 0 and \<open>metadata.music\<close> is not empty. The code does not: on
  the reply \<open>{status: {code: 0, msg: "Success"}, metadata: {music: [null]}}\<close> the
  condition of the first branch holds, and reading \<open>music.title\<close> from the \<open>null\<close> match
  throws a TypeError, so that no outcome is emitted. (Where the first branch is not
  taken, the order of the codes is the claimed one: \<open>parse_failure\<close>,
  \<open>empty_music_unknown_format\<close>.)
\<close>

theorem null_match_no_outcome:
  "success_guard rt (success_reply JNull) = Some True \<and>
   parseACRCloudResponse rt (success_reply JNull) = None"
  by (simp add: parse_success_reply)

text \<open>
  Claim C4: the normalizer does not throw, whatever nested object of the reply is absent
  or \<open>null\<close>. The code throws on a match whose \<open>artists\<close> list holds \<open>null\<close>
  (\<open>music.artists[0].name\<close> reads from it unguarded), and on a match whose
  \<open>release_date\<close> is a number (it has no \<open>substring\<close>).
\<close>

theorem extraction_throws:
  "parseACRCloudResponse rt
     (success_reply (JObj [(''title'', JStr ''Song A''), (''artists'', JArr [JNull])])) = None \<and>
   parseACRCloudResponse rt
     (success_reply (JObj [(''title'', JStr ''Song A''), (''release_date'', JNum (Fin 2019))])) = None"
  by (simp add: parse_success_reply song_defs js_gt_def member_def substring_def)

text \<open>
  Claim C10: a result carries a boolean \<open>success\<close>, true exactly when the first branch
  was taken (status code 0 and a match), and then its \<open>song\<close> has \<open>isReal\<close> set to true.
\<close>

theorem success_flag:
  assumes "parseACRCloudResponse rt d = Some r"
  shows "get_prop r ''success'' = JBool (success_guard rt d = Some True) \<and>
         (success_guard rt d = Some True \<longrightarrow> song_field r ''isReal'' = JBool True)"
proof (cases "success_guard rt d = Some True")
  case True
  from parse_success [OF assms True] obtain s where
    r: "r = JObj [(''success'', JBool True), (''song'', s)]"
    by blast
  from success_fields(12) [OF assms True] r True show ?thesis by simp
next
  case False
  with assms have g: "success_guard rt d = Some False"
    by (cases "success_guard rt d") (auto simp: parseACRCloudResponse_def)
  from assms parse_failure [OF g] have
    "r = (if has_code d 1001 then failure_code ''No music found in database'' 1001
          else if has_code d 3001 then failure_code ''Invalid access key'' 3001
          else if has_code d 3003 then failure_code ''Rate limit exceeded'' 3003
          else unknown_format d)"
    by simp
  then have "get_prop r ''success'' = JBool False"
    by (simp add: failure_code_def unknown_format_def)
  with False show ?thesis by simp
qed

text \<open>The flag on the result for Song A, and on the result for status code 1001.\<close>

theorem success_flag_witness:
  "\<forall>rt. parseACRCloudResponse rt (success_reply match_song_a) = Some result_song_a \<and>
        get_prop result_song_a ''success'' = JBool True \<and>
        song_field result_song_a ''isReal'' = JBool True \<and>
        parseACRCloudResponse rt (JObj [(''status'', JObj [(''code'', JNum (Fin 1001))])]) =
          Some (failure_code ''No music found in database'' 1001) \<and>
        get_prop (failure_code ''No music found in database'' 1001) ''success'' = JBool False"
proof
  fix rt
  let ?nf = "JObj [(''status'', JObj [(''code'', JNum (Fin 1001))])]"
  have p: "parseACRCloudResponse rt (success_reply match_song_a) = Some result_song_a"
    by (rule parse_song_a)
  have c: "has_code ?nf 1001" "\<not> has_code ?nf 0"
    by (simp_all add: has_code_def)
  then have g: "success_guard rt ?nf = Some False"
    by (simp add: code_not_zero_guard)
  have q: "parseACRCloudResponse rt ?nf = Some (failure_code ''No music found in database'' 1001)"
    using c by (simp add: parse_failure [OF g])
  from success_flag [OF p] success_flag [OF q] g p q
  show "parseACRCloudResponse rt (success_reply match_song_a) = Some result_song_a \<and>
        get_prop result_song_a ''success'' = JBool True \<and>
        song_field result_song_a ''isReal'' = JBool True \<and>
        parseACRCloudResponse rt ?nf = Some (failure_code ''No music found in database'' 1001) \<and>
        get_prop (failure_code ''No music found in database'' 1001) ''success'' = JBool False"
    by simp
qed

section \<open>The fields of the song\<close>

text \<open>
  Claim C5, amended: the confidence of a Success result is \<open>Math.round(x * 100)\<close>,
  where \<open>x\<close> is the score converted to a number (a number is itself, an absent score is
  \<open>NaN\<close>, \<open>null\<close> is 0), unless this is 0 or \<open>NaN\<close>, and then it is 95. So an absent
  score, a \<open>null\<close> score, a score without a numeric value and a score that rounds to zero
  all give 95.
\<close>

theorem confidence_rule:
  assumes "parseACRCloudResponse rt d = Some r" and "success_guard rt d = Some True"
  shows "(\<exists>x. ToNumber rt (get_prop (first_match d) ''score'') = Some x \<and>
            song_field r ''confidence'' =
              (if Math_round (num_mul x (Fin 100)) = Fin 0 \<or> Math_round (num_mul x (Fin 100)) = NaN
               then JNum (Fin 95) else JNum (Math_round (num_mul x (Fin 100))))) \<and>
         (\<forall>y. get_prop (first_match d) ''score'' = JNum y \<longrightarrow>
            song_field r ''confidence'' =
              (if Math_round (num_mul y (Fin 100)) = Fin 0 \<or> Math_round (num_mul y (Fin 100)) = NaN
               then JNum (Fin 95) else JNum (Math_round (num_mul y (Fin 100))))) \<and>
         (get_prop (first_match d) ''score'' = JUndefined \<or>
          get_prop (first_match d) ''score'' = JNull \<or>
          ToNumber rt (get_prop (first_match d) ''score'') = Some NaN \<longrightarrow>
            song_field r ''confidence'' = JNum (Fin 95))"
proof -
  note f = success_fields [OF assms]
  from f(1) f(6) obtain x where
    x: "ToNumber rt (get_prop (first_match d) ''score'') = Some x" and
    c: "song_field r ''confidence'' =
              (if Math_round (num_mul x (Fin 100)) = Fin 0 \<or> Math_round (num_mul x (Fin 100)) = NaN
               then JNum (Fin 95) else JNum (Math_round (num_mul x (Fin 100))))"
    by (auto simp: song_confidence_def Let_def split: bind_splits if_splits)
  have z: "Math_round (num_mul (Fin 0) (Fin 100)) = Fin 0"
    by (simp add: to_double_def floor_eq_iff)
  show ?thesis
  proof (intro conjI allI impI)
    show "\<exists>x. ToNumber rt (get_prop (first_match d) ''score'') = Some x \<and>
            song_field r ''confidence'' =
              (if Math_round (num_mul x (Fin 100)) = Fin 0 \<or> Math_round (num_mul x (Fin 100)) = NaN
               then JNum (Fin 95) else JNum (Math_round (num_mul x (Fin 100))))"
      using x c by blast
  next
    fix y assume "get_prop (first_match d) ''score'' = JNum y"
    with x have "x = y" by simp
    with c show "song_field r ''confidence'' =
              (if Math_round (num_mul y (Fin 100)) = Fin 0 \<or> Math_round (num_mul y (Fin 100)) = NaN
               then JNum (Fin 95) else JNum (Math_round (num_mul y (Fin 100))))" by simp
  next
    assume "get_prop (first_match d) ''score'' = JUndefined \<or>
          get_prop (first_match d) ''score'' = JNull \<or>
          ToNumber rt (get_prop (first_match d) ''score'') = Some NaN"
    with x have "x = NaN \<or> x = Fin 0" by auto
    with c z show "song_field r ''confidence'' = JNum (Fin 95)" by auto
  qed
qed

text \<open>
  Song A, with a score of 0.97, has the confidence 97; a match without a score has 95.
\<close>

theorem confidence_rule_witness:
  "\<forall>rt. parseACRCloudResponse rt (success_reply match_song_a) = Some result_song_a \<and>
        success_guard rt (success_reply match_song_a) = Some True \<and>
        get_prop (first_match (success_reply match_song_a)) ''score'' = JNum (to_double (97 / 100)) \<and>
        song_field result_song_a ''confidence'' = JNum (Fin 97) \<and>
        map_option (\<lambda>r. song_field r ''confidence'')
          (parseACRCloudResponse rt (success_reply (JObj [(''title'', JStr ''Song B'')]))) =
          Some (JNum (Fin 95))"
proof
  fix rt
  let ?b = "success_reply (JObj [(''title'', JStr ''Song B'')])"
  have p: "parseACRCloudResponse rt (success_reply match_song_a) = Some result_song_a"
    by (rule parse_song_a)
  have g: "success_guard rt (success_reply match_song_a) = Some True" by simp
  have s: "get_prop (first_match (success_reply match_song_a)) ''score'' = JNum (to_double (97 / 100))"
    by (simp add: song_a_match)
  from confidence_rule [OF p g] s have
    "song_field result_song_a ''confidence'' =
       (if Math_round (num_mul (to_double (97 / 100)) (Fin 100)) = Fin 0 \<or>
           Math_round (num_mul (to_double (97 / 100)) (Fin 100)) = NaN
        then JNum (Fin 95) else JNum (Math_round (num_mul (to_double (97 / 100)) (Fin 100))))"
    by blast
  then have a: "song_field result_song_a ''confidence'' = JNum (Fin 97)"
    by (simp add: round_97)
  obtain r where q: "parseACRCloudResponse rt ?b = Some r"
    by (simp add: parse_success_reply song_defs)
  have "get_prop (first_match ?b) ''score'' = JUndefined" by simp
  with confidence_rule [OF q] have "song_field r ''confidence'' = JNum (Fin 95)" by simp
  with q have b: "map_option (\<lambda>r. song_field r ''confidence'') (parseACRCloudResponse rt ?b) =
          Some (JNum (Fin 95))" by simp
  from p g s a b show "parseACRCloudResponse rt (success_reply match_song_a) = Some result_song_a \<and>
        success_guard rt (success_reply match_song_a) = Some True \<and>
        get_prop (first_match (success_reply match_song_a)) ''score'' = JNum (to_double (97 / 100)) \<and>
        song_field result_song_a ''confidence'' = JNum (Fin 97) \<and>
        map_option (\<lambda>r. song_field r ''confidence'') (parseACRCloudResponse rt ?b) =
          Some (JNum (Fin 95))" by blast
qed

text \<open>
  Claim C5 as stated fails on a score that is not a number and still has a numeric
  value: the score \<open>true\<close> counts as 1, and the confidence is 100, not 95.
\<close>

theorem score_true_gives_100:
  "\<forall>rt. map_option (\<lambda>r. song_field r ''confidence'')
          (parseACRCloudResponse rt (success_reply (JObj [(''score'', JBool True)]))) =
        Some (JNum (Fin 100))"
proof
  fix rt
  have "to_double (1 * 100) = Fin 100" using to_double_of_int [of 100] by simp
  then show "map_option (\<lambda>r. song_field r ''confidence'')
          (parseACRCloudResponse rt (success_reply (JObj [(''score'', JBool True)]))) =
        Some (JNum (Fin 100))"
    by (simp add: parse_success_reply song_defs floor_eq_iff)
qed

text \<open>
  Claim C7, amended: the duration of a Success result is \<open>null\<close> when \<open>duration_ms\<close>
  is falsy (absent, \<open>null\<close>, 0, \<open>NaN\<close>, the empty string), and otherwise
  \<open>Math.floor(x / 1000)\<close> for the number \<open>x\<close> that \<open>duration_ms\<close> is or converts to;
  for a whole number of milliseconds below \<open>2^53\<close> that is its integer quotient by 1000.
\<close>

theorem duration_rule:
  assumes "parseACRCloudResponse rt d = Some r" and "success_guard rt d = Some True"
  shows "(\<not> truthy (get_prop (first_match d) ''duration_ms'') \<longrightarrow>
            song_field r ''duration'' = JNull) \<and>
         (\<forall>y. get_prop (first_match d) ''duration_ms'' = JNum y \<longrightarrow> y \<noteq> Fin 0 \<longrightarrow> y \<noteq> NaN \<longrightarrow>
            song_field r ''duration'' = JNum (Math_floor (num_div y (Fin 1000)))) \<and>
         (\<forall>n. get_prop (first_match d) ''duration_ms'' = JNum (Fin (of_int n)) \<longrightarrow>
            0 < n \<longrightarrow> n < 2 ^ 53 \<longrightarrow>
            song_field r ''duration'' = JNum (Fin (of_int (n div 1000)))) \<and>
         (truthy (get_prop (first_match d) ''duration_ms'') \<longrightarrow>
            (\<exists>x. ToNumber rt (get_prop (first_match d) ''duration_ms'') = Some x \<and>
                 song_field r ''duration'' = JNum (Math_floor (num_div x (Fin 1000)))))"
proof -
  note f = success_fields [OF assms]
  have i: "song_field r ''duration'' = JNum (Fin (of_int (n div 1000)))"
    if "get_prop (first_match d) ''duration_ms'' = JNum (Fin (of_int n))" "0 < n" "n < 2 ^ 53"
    for n
  proof -
    from that(2) have "(of_int n :: rat) \<noteq> 0" by simp
    with f(1) f(7) that(1)
    have "song_field r ''duration'' = JNum (Math_floor (num_div (Fin (of_int n)) (Fin 1000)))"
      by (simp add: song_duration_def)
    with that(2,3) show ?thesis by (simp only: floor_div_1000)
  qed
  from f(1) f(7) have
    "(\<not> truthy (get_prop (first_match d) ''duration_ms'') \<longrightarrow>
            song_field r ''duration'' = JNull) \<and>
     (\<forall>y. get_prop (first_match d) ''duration_ms'' = JNum y \<longrightarrow> y \<noteq> Fin 0 \<longrightarrow> y \<noteq> NaN \<longrightarrow>
            song_field r ''duration'' = JNum (Math_floor (num_div y (Fin 1000)))) \<and>
     (truthy (get_prop (first_match d) ''duration_ms'') \<longrightarrow>
            (\<exists>x. ToNumber rt (get_prop (first_match d) ''duration_ms'') = Some x \<and>
                 song_field r ''duration'' = JNum (Math_floor (num_div x (Fin 1000)))))"
    by (auto simp: song_duration_def split: bind_splits if_splits)
  with i show ?thesis by blast
qed

text \<open>
  Song A lasts 215999 ms, that is 215 s; a match without \<open>duration_ms\<close> has the
  duration \<open>null\<close>.
\<close>

theorem duration_rule_witness:
  "\<forall>rt. parseACRCloudResponse rt (success_reply match_song_a) = Some result_song_a \<and>
        get_prop (first_match (success_reply match_song_a)) ''duration_ms'' = JNum (Fin 215999) \<and>
        song_field result_song_a ''duration'' = JNum (Fin 215) \<and>
        map_option (\<lambda>r. song_field r ''duration'')
          (parseACRCloudResponse rt (success_reply (JObj [(''title'', JStr ''Song B'')]))) =
          Some JNull"
proof
  fix rt
  let ?b = "success_reply (JObj [(''title'', JStr ''Song B'')])"
  have p: "parseACRCloudResponse rt (success_reply match_song_a) = Some result_song_a"
    by (rule parse_song_a)
  have s: "get_prop (first_match (success_reply match_song_a)) ''duration_ms'' = JNum (Fin 215999)"
    by (simp add: song_a_match)
  from duration_rule [OF p] s
  have a: "song_field result_song_a ''duration'' = JNum (Fin 215)"
    by (simp add: floor_215)
  obtain r where q: "parseACRCloudResponse rt ?b = Some r"
    by (simp add: parse_success_reply song_defs)
  have "\<not> truthy (get_prop (first_match ?b) ''duration_ms'')" by simp
  with duration_rule [OF q] have "song_field r ''duration'' = JNull" by simp
  with q have b: "map_option (\<lambda>r. song_field r ''duration'') (parseACRCloudResponse rt ?b) = Some JNull"
    by simp
  from p s a b show "parseACRCloudResponse rt (success_reply match_song_a) = Some result_song_a \<and>
        get_prop (first_match (success_reply match_song_a)) ''duration_ms'' = JNum (Fin 215999) \<and>
        song_field result_song_a ''duration'' = JNum (Fin 215) \<and>
        map_option (\<lambda>r. song_field r ''duration'') (parseACRCloudResponse rt ?b) = Some JNull"
    by blast
qed

text \<open>
  Claim C7 as stated fails on a \<open>duration_ms\<close> that is present and 0: the duration is
  \<open>null\<close>, not \<open>Math.floor(0 / 1000)\<close>, which is 0.
\<close>

theorem zero_duration_is_null:
  "\<forall>rt. map_option (\<lambda>r. song_field r ''duration'')
          (parseACRCloudResponse rt (success_reply (JObj [(''duration_ms'', JNum (Fin 0))]))) =
        Some JNull \<and>
        Math_floor (num_div (Fin 0) (Fin 1000)) = Fin 0"
  by (simp add: parse_success_reply song_defs to_double_def)

text \<open>
  Claim C6, amended: in a Success result the title is the match's title, or
  \<open>Unknown Title\<close> when that is absent or falsy; the artist is \<open>Unknown Artist\<close> when
  \<open>artists\<close> is absent, falsy or an empty list, and the \<open>name\<close> property of the first
  element of a non-empty list; the album is \<open>Unknown Album\<close> when \<open>album\<close> is absent or
  falsy, and the \<open>name\<close> property of the album otherwise; the year is \<open>Unknown\<close> when
  \<open>release_date\<close> is absent or falsy, and the first four characters of a non-empty
  string.
\<close>

theorem string_defaults:
  assumes "parseACRCloudResponse rt d = Some r" and "success_guard rt d = Some True"
  shows "song_field r ''title'' =
           (if truthy (get_prop (first_match d) ''title'') then get_prop (first_match d) ''title''
            else JStr ''Unknown Title'') \<and>
         (\<not> truthy (get_prop (first_match d) ''artists'') \<or>
          get_prop (first_match d) ''artists'' = JArr [] \<longrightarrow>
            song_field r ''artist'' = JStr ''Unknown Artist'') \<and>
         (\<forall>a as. get_prop (first_match d) ''artists'' = JArr (a # as) \<longrightarrow>
            song_field r ''artist'' = get_prop a ''name'') \<and>
         song_field r ''album'' =
           (if truthy (get_prop (first_match d) ''album'')
            then get_prop (get_prop (first_match d) ''album'') ''name''
            else JStr ''Unknown Album'') \<and>
         (\<not> truthy (get_prop (first_match d) ''release_date'') \<longrightarrow>
            song_field r ''year'' = JStr ''Unknown'') \<and>
         (\<forall>s. get_prop (first_match d) ''release_date'' = JStr s \<longrightarrow> s \<noteq> [] \<longrightarrow>
            song_field r ''year'' = JStr (take 4 s))"
proof -
  note f = success_fields [OF assms]
  have title: "song_field r ''title'' =
           (if truthy (get_prop (first_match d) ''title'') then get_prop (first_match d) ''title''
            else JStr ''Unknown Title'')"
    using f(1) f(2) by (auto simp: song_title_def split: if_splits)
  have artist0: "song_field r ''artist'' = JStr ''Unknown Artist''"
    if "\<not> truthy (get_prop (first_match d) ''artists'') \<or>
          get_prop (first_match d) ''artists'' = JArr []"
    using f(1) f(3) that by (auto simp: song_artist_def js_gt_def split: if_splits)
  have artist1: "song_field r ''artist'' = get_prop a ''name''"
    if "get_prop (first_match d) ''artists'' = JArr (a # as)" for a as
    using f(1) f(3) that
    by (auto simp: song_artist_def js_gt_def member_def split: if_splits bind_splits)
  have album: "song_field r ''album'' =
           (if truthy (get_prop (first_match d) ''album'')
            then get_prop (get_prop (first_match d) ''album'') ''name''
            else JStr ''Unknown Album'')"
    using f(1) f(4) by (auto simp: song_album_def truthy_not_nullish split: if_splits)
  have year0: "song_field r ''year'' = JStr ''Unknown''"
    if "\<not> truthy (get_prop (first_match d) ''release_date'')"
    using f(1) f(5) that by (auto simp: song_year_def split: if_splits)
  have year1: "song_field r ''year'' = JStr (take 4 s)"
    if "get_prop (first_match d) ''release_date'' = JStr s" "s \<noteq> []" for s
    using f(1) f(5) that
    by (auto simp: song_year_def substring_def Let_def min_def split: if_splits)
  from title artist0 artist1 album year0 year1 show ?thesis by blast
qed

text \<open>
  The four fields of Song A, and of a match that has none of them.
\<close>

theorem string_defaults_witness:
  "\<forall>rt. parseACRCloudResponse rt (success_reply match_song_a) = Some result_song_a \<and>
        song_field result_song_a ''title'' = JStr ''Song A'' \<and>
        song_field result_song_a ''artist'' = JStr ''Artist A'' \<and>
        song_field result_song_a ''album'' = JStr ''Album A'' \<and>
        song_field result_song_a ''year'' = JStr ''2019'' \<and>
        map_option (\<lambda>r. map (song_field r) [''title'', ''artist'', ''album'', ''year''])
          (parseACRCloudResponse rt (success_reply (JObj [(''score'', JNum (Fin 1))]))) =
          Some [JStr ''Unknown Title'', JStr ''Unknown Artist'', JStr ''Unknown Album'',
                JStr ''Unknown'']"
proof
  fix rt
  let ?b = "success_reply (JObj [(''score'', JNum (Fin 1))])"
  have p: "parseACRCloudResponse rt (success_reply match_song_a) = Some result_song_a"
    by (rule parse_song_a)
  from string_defaults [OF p]
  have a: "song_field result_song_a ''title'' = JStr ''Song A'' \<and>
        song_field result_song_a ''artist'' = JStr ''Artist A'' \<and>
        song_field result_song_a ''album'' = JStr ''Album A'' \<and>
        song_field result_song_a ''year'' = JStr ''2019''"
    by (simp add: song_a_match)
  have "to_double (1 * 100) = Fin 100" using to_double_of_int [of 100] by simp
  then obtain r where q: "parseACRCloudResponse rt ?b = Some r"
    by (simp add: parse_success_reply song_defs)
  from string_defaults [OF q]
  have "map (song_field r) [''title'', ''artist'', ''album'', ''year''] =
          [JStr ''Unknown Title'', JStr ''Unknown Artist'', JStr ''Unknown Album'', JStr ''Unknown'']"
    by simp
  with q have b: "map_option (\<lambda>r. map (song_field r) [''title'', ''artist'', ''album'', ''year''])
          (parseACRCloudResponse rt ?b) =
          Some [JStr ''Unknown Title'', JStr ''Unknown Artist'', JStr ''Unknown Album'',
                JStr ''Unknown'']" by simp
  from p a b show "parseACRCloudResponse rt (success_reply match_song_a) = Some result_song_a \<and>
        song_field result_song_a ''title'' = JStr ''Song A'' \<and>
        song_field result_song_a ''artist'' = JStr ''Artist A'' \<and>
        song_field result_song_a ''album'' = JStr ''Album A'' \<and>
        song_field result_song_a ''year'' = JStr ''2019'' \<and>
        map_option (\<lambda>r. map (song_field r) [''title'', ''artist'', ''album'', ''year''])
          (parseACRCloudResponse rt ?b) =
          Some [JStr ''Unknown Title'', JStr ''Unknown Artist'', JStr ''Unknown Album'',
                JStr ''Unknown'']" by blast
qed

text \<open>
  Claim C6 as stated fails on an artists entry without a name: the artist is
  \<open>undefined\<close>, not the placeholder.
\<close>

theorem nameless_artist_undefined:
  "\<forall>rt. map_option (\<lambda>r. song_field r ''artist'')
          (parseACRCloudResponse rt
             (success_reply (JObj [(''title'', JStr ''Song A''), (''artists'', JArr [JObj []])]))) =
        Some JUndefined"
  by (simp add: parse_success_reply song_defs js_gt_def)

text \<open>
  Claim C3, amended: in a Success result, \<open>spotify_url\<close>, \<open>apple_url\<close> and
  \<open>preview_url\<close> are \<open>undefined\<close> when a link of their path in \<open>external_metadata\<close> is
  missing. \<open>youtube_url\<close> is the watch URL followed by the video id whenever the id is
  truthy: the id itself when it is a string, its text when it is not (its decimal digits
  for a whole number); it is \<open>null\<close> whenever the id is falsy, as it is when a link of the
  path to it is missing.
\<close>

theorem links_rule:
  assumes "parseACRCloudResponse rt d = Some r" and "success_guard rt d = Some True"
  shows "(missing_link (get_prop (first_match d) ''external_metadata'')
            [''spotify'', ''track'', ''external_urls'', ''spotify''] \<longrightarrow>
            song_field r ''spotify_url'' = JUndefined) \<and>
         (missing_link (get_prop (first_match d) ''external_metadata'') [''apple_music'', ''url''] \<longrightarrow>
            song_field r ''apple_url'' = JUndefined) \<and>
         (missing_link (get_prop (first_match d) ''external_metadata'')
            [''spotify'', ''track'', ''preview_url''] \<longrightarrow>
            song_field r ''preview_url'' = JUndefined) \<and>
         (truthy (get_prop (get_prop (get_prop (first_match d) ''external_metadata'') ''youtube'') ''vid'') \<longrightarrow>
            (\<exists>s. ToString rt
                   (get_prop (get_prop (get_prop (first_match d) ''external_metadata'') ''youtube'') ''vid'')
                   = Some s \<and>
                 song_field r ''youtube_url'' = JStr (''https://www.youtube.com/watch?v='' @ s))) \<and>
         (\<forall>s. get_prop (get_prop (get_prop (first_match d) ''external_metadata'') ''youtube'') ''vid''
                = JStr s \<longrightarrow> s \<noteq> [] \<longrightarrow>
            song_field r ''youtube_url'' = JStr (''https://www.youtube.com/watch?v='' @ s)) \<and>
         (\<forall>n. get_prop (get_prop (get_prop (first_match d) ''external_metadata'') ''youtube'') ''vid''
                = JNum (Fin (of_int n)) \<longrightarrow> n \<noteq> 0 \<longrightarrow> \<bar>n\<bar> < 2 ^ 53 \<longrightarrow>
            song_field r ''youtube_url'' = JStr (''https://www.youtube.com/watch?v='' @ dec_int n)) \<and>
         (\<not> truthy (get_prop (get_prop (get_prop (first_match d) ''external_metadata'') ''youtube'') ''vid'') \<longrightarrow>
            song_field r ''youtube_url'' = JNull) \<and>
         (missing_link (get_prop (first_match d) ''external_metadata'') [''youtube'', ''vid''] \<longrightarrow>
            song_field r ''youtube_url'' = JNull)"
proof -
  note f = success_fields [OF assms]
  let ?em = "get_prop (first_match d) ''external_metadata''"
  let ?vid = "get_prop (get_prop ?em ''youtube'') ''vid''"
  have sp: "song_field r ''spotify_url'' =
              foldl get_prop ?em [''spotify'', ''track'', ''external_urls'', ''spotify'']"
    using f(1) f(8) by (simp add: song_spotify_url_def)
  have ap: "song_field r ''apple_url'' = foldl get_prop ?em [''apple_music'', ''url'']"
    using f(1) f(10) by (simp add: song_apple_url_def)
  have pr: "song_field r ''preview_url'' = foldl get_prop ?em [''spotify'', ''track'', ''preview_url'']"
    using f(1) f(11) by (simp add: song_preview_url_def)
  have yt: "\<exists>s. ToString rt ?vid = Some s \<and>
               song_field r ''youtube_url'' = JStr (''https://www.youtube.com/watch?v='' @ s)"
    if "truthy ?vid"
  proof -
    from that have "\<not> nullish ?vid" by (rule truthy_not_nullish)
    then have "\<not> nullish (get_prop ?em ''youtube'')" "\<not> nullish ?em"
      by (auto dest: get_prop_nullish)
    with f(1) f(9) that show ?thesis
      by (auto simp: song_youtube_url_def split: bind_splits)
  qed
  have yts: "song_field r ''youtube_url'' = JStr (''https://www.youtube.com/watch?v='' @ s)"
    if "?vid = JStr s" "s \<noteq> []" for s
    using yt that by simp
  have ytn: "song_field r ''youtube_url'' = JStr (''https://www.youtube.com/watch?v='' @ dec_int n)"
    if "?vid = JNum (Fin (of_int n))" "n \<noteq> 0" "\<bar>n\<bar> < 2 ^ 53" for n
    using yt that by (simp add: NumberToString_int)
  have yt0: "song_field r ''youtube_url'' = JNull" if "\<not> truthy ?vid"
    using f(1) f(9) that by (simp add: song_youtube_url_def)
  have ytm: "song_field r ''youtube_url'' = JNull" if "missing_link ?em [''youtube'', ''vid'']"
  proof -
    from missing_link_undefined [OF that] have "?vid = JUndefined" by simp
    then show ?thesis using yt0 by simp
  qed
  from sp ap pr missing_link_undefined
  have links: "(missing_link ?em [''spotify'', ''track'', ''external_urls'', ''spotify''] \<longrightarrow>
            song_field r ''spotify_url'' = JUndefined) \<and>
         (missing_link ?em [''apple_music'', ''url''] \<longrightarrow> song_field r ''apple_url'' = JUndefined) \<and>
         (missing_link ?em [''spotify'', ''track'', ''preview_url''] \<longrightarrow>
            song_field r ''preview_url'' = JUndefined)"
    by (metis (no_types, lifting))
  from links yt yts ytn yt0 ytm show ?thesis by blast
qed

text \<open>
  Song A has a video id and no Spotify block; a match whose Spotify block is \<open>null\<close> has
  no video id; a match with the video id 12345, a number.
\<close>

theorem links_rule_witness:
  "\<forall>rt. parseACRCloudResponse rt (success_reply match_song_a) = Some result_song_a \<and>
        missing_link (get_prop (first_match (success_reply match_song_a)) ''external_metadata'')
          [''spotify'', ''track'', ''external_urls'', ''spotify''] \<and>
        song_field result_song_a ''spotify_url'' = JUndefined \<and>
        song_field result_song_a ''youtube_url'' = JStr ''https://www.youtube.com/watch?v=abc123'' \<and>
        map_option (\<lambda>r. song_field r ''youtube_url'')
          (parseACRCloudResponse rt
             (success_reply (JObj [(''external_metadata'', JObj [(''spotify'', JNull)])]))) =
          Some JNull \<and>
        map_option (\<lambda>r. song_field r ''youtube_url'')
          (parseACRCloudResponse rt
             (success_reply
                (JObj [(''external_metadata'',
                        JObj [(''youtube'', JObj [(''vid'', JNum (Fin 12345))])])]))) =
          Some (JStr ''https://www.youtube.com/watch?v=12345'')"
proof
  fix rt
  let ?b = "success_reply (JObj [(''external_metadata'', JObj [(''spotify'', JNull)])])"
  let ?c = "success_reply
                (JObj [(''external_metadata'',
                        JObj [(''youtube'', JObj [(''vid'', JNum (Fin 12345))])])])"
  have p: "parseACRCloudResponse rt (success_reply match_song_a) = Some result_song_a"
    by (rule parse_song_a)
  have m: "missing_link (get_prop (first_match (success_reply match_song_a)) ''external_metadata'')
          [''spotify'', ''track'', ''external_urls'', ''spotify'']"
    by (simp add: song_a_match)
  from links_rule [OF p] m
  have a: "song_field result_song_a ''spotify_url'' = JUndefined \<and>
        song_field result_song_a ''youtube_url'' = JStr ''https://www.youtube.com/watch?v=abc123''"
    by (simp add: song_a_match)
  obtain r where q: "parseACRCloudResponse rt ?b = Some r"
    by (simp add: parse_success_reply song_defs)
  have "missing_link (get_prop (first_match ?b) ''external_metadata'') [''youtube'', ''vid'']"
    by simp
  with links_rule [OF q] have "song_field r ''youtube_url'' = JNull" by simp
  with q have b: "map_option (\<lambda>r. song_field r ''youtube_url'') (parseACRCloudResponse rt ?b) =
          Some JNull" by simp
  have n: "NumberToString rt (Fin 12345) = dec_int 12345"
    using NumberToString_int [of 12345 rt] by simp
  obtain r' where q': "parseACRCloudResponse rt ?c = Some r'"
    by (simp add: parse_success_reply song_defs)
  have v: "get_prop (get_prop (get_prop (first_match ?c) ''external_metadata'') ''youtube'') ''vid''
             = JNum (Fin (of_int 12345))"
    by simp
  from links_rule [OF q'] v
  have "song_field r' ''youtube_url'' = JStr (''https://www.youtube.com/watch?v='' @ dec_int 12345)"
    by (simp add: n)
  with q' have c: "map_option (\<lambda>r. song_field r ''youtube_url'') (parseACRCloudResponse rt ?c) =
          Some (JStr ''https://www.youtube.com/watch?v=12345'')"
    by (simp add: dec_int_def dec.simps digit_char_def)
  from p m a b c show "parseACRCloudResponse rt (success_reply match_song_a) = Some result_song_a \<and>
        missing_link (get_prop (first_match (success_reply match_song_a)) ''external_metadata'')
          [''spotify'', ''track'', ''external_urls'', ''spotify''] \<and>
        song_field result_song_a ''spotify_url'' = JUndefined \<and>
        song_field result_song_a ''youtube_url'' = JStr ''https://www.youtube.com/watch?v=abc123'' \<and>
        map_option (\<lambda>r. song_field r ''youtube_url'') (parseACRCloudResponse rt ?b) = Some JNull \<and>
        map_option (\<lambda>r. song_field r ''youtube_url'') (parseACRCloudResponse rt ?c) =
          Some (JStr ''https://www.youtube.com/watch?v=12345'')"
    by blast
qed

text \<open>
  Claim C3 as stated fails on a match without \<open>external_metadata\<close>: the three links
  are \<open>undefined\<close>, not \<open>null\<close>; only \<open>youtube_url\<close> is \<open>null\<close>. It also fails on a
  video id that is present and empty: \<open>youtube_url\<close> is \<open>null\<close>, not the watch URL
  followed by the empty id.
\<close>

theorem absent_links_not_null:
  "\<forall>rt. map_option
          (\<lambda>r. map (song_field r) [''spotify_url'', ''apple_url'', ''preview_url'', ''youtube_url''])
          (parseACRCloudResponse rt (success_reply (JObj [(''title'', JStr ''Song A'')]))) =
        Some [JUndefined, JUndefined, JUndefined, JNull] \<and>
        map_option (\<lambda>r. song_field r ''youtube_url'')
          (parseACRCloudResponse rt
             (success_reply
                (JObj [(''external_metadata'', JObj [(''youtube'', JObj [(''vid'', JStr [])])])]))) =
        Some JNull"
  by (simp add: parse_success_reply song_defs)

section \<open>The request signer\<close>

text \<open>
  Claim C2: the string that is digested is the method, the path, the key id, the
  literals \<open>audio\<close> and \<open>1\<close> and the timestamp, in this order, joined by newlines. The
  timestamp stands there as the text of the number: for every whole number of seconds
  below \<open>2^53\<close> in size its decimal digits, which are the canonical way of writing it
  (no leading zero, and the value they denote is the number). For the path
  \<open>/v1/identify\<close>, the key id \<open>abc123\<close> and the timestamp 1700000000 the string is the
  one of the specification. \<open>generateSignature\<close> digests the string it is given under
  the secret.
\<close>

theorem canonical_string:
  "stringToSign rt path keyId ts =
     join_lines [''POST'', path, keyId, ''audio'', ''1'', NumberToString rt ts] \<and>
   (\<forall>t. \<bar>t\<bar> < 2 ^ 53 \<longrightarrow>
      stringToSign rt path keyId (Fin (of_int t)) =
        join_lines [''POST'', path, keyId, ''audio'', ''1'', dec_int t]) \<and>
   (\<forall>n. list_all is_digit (dec n) \<and> digits_value (dec n) = n \<and> array_index (dec n) = Some n) \<and>
   stringToSign rt ''/v1/identify'' ''abc123'' (Fin 1700000000) =
     ''POST\<newline>/v1/identify\<newline>abc123\<newline>audio\<newline>1\<newline>1700000000'' \<and>
   generateSignature pf (stringToSign rt path keyId ts) secret =
     hmac_sha1_base64 pf secret (stringToSign rt path keyId ts)"
proof (intro conjI allI impI)
  show "stringToSign rt path keyId ts =
     join_lines [''POST'', path, keyId, ''audio'', ''1'', NumberToString rt ts]"
    by (simp add: stringToSign_def)
  show "stringToSign rt path keyId (Fin (of_int t)) =
        join_lines [''POST'', path, keyId, ''audio'', ''1'', dec_int t]"
    if "\<bar>t\<bar> < 2 ^ 53" for t
    using that by (simp add: stringToSign_def NumberToString_int)
  show "list_all is_digit (dec n)" for n by (simp add: dec_digits)
  show "digits_value (dec n) = n" for n by (simp add: dec_digits)
  show "array_index (dec n) = Some n" for n by (rule array_index_dec)
  show "stringToSign rt ''/v1/identify'' ''abc123'' (Fin 1700000000) =
     ''POST\<newline>/v1/identify\<newline>abc123\<newline>audio\<newline>1\<newline>1700000000''"
    by (simp add: stringToSign_def NumberToString_def dec_int_def dec.simps digit_char_def)
  show "generateSignature pf (stringToSign rt path keyId ts) secret =
     hmac_sha1_base64 pf secret (stringToSign rt path keyId ts)"
    by (simp add: generateSignature_def)
qed

text \<open>
  The strings for the timestamps 1234567890 and -5.
\<close>

theorem canonical_string_witness:
  "\<forall>rt. \<bar>1234567890 :: int\<bar> < 2 ^ 53 \<and>
        stringToSign rt ''/v1/identify'' ''key-1'' (Fin 1234567890) =
          ''POST\<newline>/v1/identify\<newline>key-1\<newline>audio\<newline>1\<newline>1234567890'' \<and>
        stringToSign rt ''/v1/identify'' ''key-1'' (Fin (- 5)) =
          ''POST\<newline>/v1/identify\<newline>key-1\<newline>audio\<newline>1\<newline>-5''"
proof
  fix rt
  have a: "\<bar>1234567890 :: int\<bar> < 2 ^ 53" and b: "\<bar>- 5 :: int\<bar> < 2 ^ 53" by simp_all
  from canonical_string [of rt "''/v1/identify''" "''key-1''"]
  have c: "\<forall>t. \<bar>t\<bar> < 2 ^ 53 \<longrightarrow>
      stringToSign rt ''/v1/identify'' ''key-1'' (Fin (of_int t)) =
        join_lines [''POST'', ''/v1/identify'', ''key-1'', ''audio'', ''1'', dec_int t]"
    by blast
  from c a have "stringToSign rt ''/v1/identify'' ''key-1'' (Fin (of_int 1234567890)) =
        join_lines [''POST'', ''/v1/identify'', ''key-1'', ''audio'', ''1'', dec_int 1234567890]"
    by blast
  then have x: "stringToSign rt ''/v1/identify'' ''key-1'' (Fin 1234567890) =
          ''POST\<newline>/v1/identify\<newline>key-1\<newline>audio\<newline>1\<newline>1234567890''"
    by (simp add: dec_int_def dec.simps digit_char_def)
  from c b have "stringToSign rt ''/v1/identify'' ''key-1'' (Fin (of_int (- 5))) =
        join_lines [''POST'', ''/v1/identify'', ''key-1'', ''audio'', ''1'', dec_int (- 5)]"
    by blast
  then have y: "stringToSign rt ''/v1/identify'' ''key-1'' (Fin (- 5)) =
          ''POST\<newline>/v1/identify\<newline>key-1\<newline>audio\<newline>1\<newline>-5''"
    by (simp add: dec_int_def dec.simps digit_char_def)
  from a x y show "\<bar>1234567890 :: int\<bar> < 2 ^ 53 \<and>
        stringToSign rt ''/v1/identify'' ''key-1'' (Fin 1234567890) =
          ''POST\<newline>/v1/identify\<newline>key-1\<newline>audio\<newline>1\<newline>1234567890'' \<and>
        stringToSign rt ''/v1/identify'' ''key-1'' (Fin (- 5)) =
          ''POST\<newline>/v1/identify\<newline>key-1\<newline>audio\<newline>1\<newline>-5''"
    by blast
qed

text \<open>
  Claim C8: a request that the upload middleware hands on with a file, with both
  credentials set, takes the timestamp once, from the first reading of the clock:
  \<open>Math.floor(Date.now() / 1000)\<close>. With \<open>T\<close> the text of this number, the string that
  is signed is \<open>POST\<close>, the path, the key id, \<open>audio\<close>, \<open>1\<close> and \<open>T\<close>, joined by
  newlines; the form that is sent holds the digest of exactly this string under the
  secret in \<open>signature\<close>, and \<open>T\<close> in \<open>timestamp\<close>. \<open>T\<close> is the number in decimal digits
  whenever it is a safe integer: for a clock reading of \<open>n\<close> milliseconds,
  \<open>0 \<le> n < 2^53\<close>, the digits of \<open>n div 1000\<close>. (Any other request signs and sends
  nothing.)
\<close>

theorem signed_timestamp_is_sent:
  assumes "upload_single pf ''audio'' req = Inr (Some f)"
    and "access_key cfg = Some k" and "k \<noteq> []"
    and "access_secret cfg = Some s" and "s \<noteq> []"
  shows "let T = NumberToString rt (Math_floor (num_div (Date_now pf 0) (Fin 1000)));
             S = ''POST\<newline>'' @ endpoint cfg @ ''\<newline>'' @ k @ ''\<newline>audio\<newline>1\<newline>'' @ T;
             url = ''https://'' @ host cfg @ endpoint cfg;
             form =
               [(''sample'',
                   File (buffer f) (originalname f)
                     (if mimetype f \<noteq> [] then mimetype f else ''audio/wav'')),
                (''sample_bytes'', Text (dec (length (buffer f)))),
                (''access_key'', Text k),
                (''data_type'', Text ''audio''),
                (''signature_version'', Text ''1''),
                (''signature'', Text (hmac_sha1_base64 pf s S)),
                (''timestamp'', Text T)]
         in api_identify rt pf cfg req =
              ([Signed S s, Fetched url form], respond rt pf (fetch pf url form)) \<and>
            (\<forall>t. Math_floor (num_div (Date_now pf 0) (Fin 1000)) = Fin (of_int t) \<longrightarrow>
                 \<bar>t\<bar> < 2 ^ 53 \<longrightarrow> T = dec_int t) \<and>
            (\<forall>n. Date_now pf 0 = Fin (of_int n) \<longrightarrow> 0 \<le> n \<longrightarrow> n < 2 ^ 53 \<longrightarrow>
                 T = dec_int (n div 1000))"
proof -
  from upload_single_accepts [OF assms(1)] have nm: "originalname f \<noteq> []" by simp
  from upload_single_accepts [OF assms(1)] have "file_size f \<le> fileSize" by simp
  with fileSize_safe have "length (buffer f) < 2 ^ 53" by (simp add: file_size_def)
  then have bytes: "NumberToString rt (Fin (of_nat (file_size f))) = dec (length (buffer f))"
    by (simp add: file_size_def NumberToString_nat)
  have secs: "NumberToString rt (Math_floor (num_div (Date_now pf 0) (Fin 1000))) =
                dec_int (n div 1000)"
    if "Date_now pf 0 = Fin (of_int n)" "0 \<le> n" "n < 2 ^ 53" for n
  proof -
    from that(2) have d: "0 \<le> n div 1000" by (simp add: pos_imp_zdiv_nonneg_iff)
    have "n = 1000 * (n div 1000) + n mod 1000" and "0 \<le> n mod 1000" by simp_all
    with d have "n div 1000 \<le> n" by linarith
    with d have "\<bar>n div 1000\<bar> < 2 ^ 53" using that(3) by linarith
    then show ?thesis
      unfolding that(1) floor_div_1000 [OF that(2,3)] by (rule NumberToString_int)
  qed
  have run: "api_identify rt pf cfg req = identify rt pf cfg (Some f)"
    by (simp add: api_identify_def assms(1))
  show ?thesis
    unfolding Let_def run
    using assms(2-5) secs nm
    by (simp add: identify_def Let_def unset_def env_text_def stringToSign_def
          generateSignature_def bytes NumberToString_int)
qed

text \<open>
  A request at 1700000000123 ms, on a clock that a second reading would find a second
  later.
\<close>

theorem signed_timestamp_is_sent_witness:
  "\<forall>rt. upload_single example_platform ''audio'' (Body [(''audio'', example_upload)]) =
          Inr (Some example_upload) \<and>
        api_identify rt example_platform (acrcloudConfig (Some ''abc123'') (Some ''s3cret''))
            (Body [(''audio'', example_upload)]) =
          ([Signed ''POST\<newline>/v1/identify\<newline>abc123\<newline>audio\<newline>1\<newline>1700000000'' ''s3cret'',
            Fetched ''https://identify-ap-southeast-1.acrcloud.com/v1/identify''
              [(''sample'', File ''RIFF'' ''clip.wav'' ''audio/wav''),
               (''sample_bytes'', Text ''4''),
               (''access_key'', Text ''abc123''),
               (''data_type'', Text ''audio''),
               (''signature_version'', Text ''1''),
               (''signature'',
                Text ''hmac(s3cret,POST\<newline>/v1/identify\<newline>abc123\<newline>audio\<newline>1\<newline>1700000000)''),
               (''timestamp'', Text ''1700000000'')]],
           Reply 500 (JObj [(''error'', JStr ''Internal server error''),
                            (''message'', JStr ''connect ECONNREFUSED'')]))"
proof
  fix rt
  let ?cfg = "acrcloudConfig (Some ''abc123'') (Some ''s3cret'')"
  let ?req = "Body [(''audio'', example_upload)]"
  have u: "upload_single example_platform ''audio'' ?req = Inr (Some example_upload)"
    by (simp add: upload_single_def example_upload_def example_platform_def file_size_def
          fileSize_def)
  have k: "access_key ?cfg = Some ''abc123''" "''abc123'' \<noteq> []"
    and s: "access_secret ?cfg = Some ''s3cret''" "''s3cret'' \<noteq> []"
    by (simp_all add: acrcloudConfig_def)
  note t = signed_timestamp_is_sent [OF u k s, of rt, unfolded Let_def]
  have n: "Date_now example_platform 0 = Fin (of_int 1700000000123)"
    by (simp add: example_platform_def)
  from t [THEN conjunct2, THEN conjunct2, rule_format, OF n]
  have T: "NumberToString rt (Math_floor (num_div (Date_now example_platform 0) (Fin 1000))) =
             ''1700000000''"
    by (simp add: dec_int_def dec.simps digit_char_def)
  from t [THEN conjunct1]
  have "api_identify rt example_platform ?cfg ?req =
          ([Signed ''POST\<newline>/v1/identify\<newline>abc123\<newline>audio\<newline>1\<newline>1700000000'' ''s3cret'',
            Fetched ''https://identify-ap-southeast-1.acrcloud.com/v1/identify''
              [(''sample'', File ''RIFF'' ''clip.wav'' ''audio/wav''),
               (''sample_bytes'', Text ''4''),
               (''access_key'', Text ''abc123''),
               (''data_type'', Text ''audio''),
               (''signature_version'', Text ''1''),
               (''signature'',
                Text ''hmac(s3cret,POST\<newline>/v1/identify\<newline>abc123\<newline>audio\<newline>1\<newline>1700000000)''),
               (''timestamp'', Text ''1700000000'')]],
           Reply 500 (JObj [(''error'', JStr ''Internal server error''),
                            (''message'', JStr ''connect ECONNREFUSED'')]))"
    unfolding T
    by (simp add: example_platform_def example_upload_def acrcloudConfig_def respond_def
          internal_error_def dec.simps digit_char_def)
  with u show "upload_single example_platform ''audio'' ?req = Inr (Some example_upload) \<and>
        api_identify rt example_platform ?cfg ?req =
          ([Signed ''POST\<newline>/v1/identify\<newline>abc123\<newline>audio\<newline>1\<newline>1700000000'' ''s3cret'',
            Fetched ''https://identify-ap-southeast-1.acrcloud.com/v1/identify''
              [(''sample'', File ''RIFF'' ''clip.wav'' ''audio/wav''),
               (''sample_bytes'', Text ''4''),
               (''access_key'', Text ''abc123''),
               (''data_type'', Text ''audio''),
               (''signature_version'', Text ''1''),
               (''signature'',
                Text ''hmac(s3cret,POST\<newline>/v1/identify\<newline>abc123\<newline>audio\<newline>1\<newline>1700000000)''),
               (''timestamp'', Text ''1700000000'')]],
           Reply 500 (JObj [(''error'', JStr ''Internal server error''),
                            (''message'', JStr ''connect ECONNREFUSED'')]))"
    by blast
qed

text \<open>
  Claim C9, amended: when the access key or the secret is not set or empty, nothing is
  signed and nothing is sent to the provider. The reply is the configuration error
  (status 500) when the upload middleware hands the handler a file; the missing-file
  error (status 400) when it hands it none, as that test comes first; and when the
  middleware refuses the request (a file over the 10 MB limit, a file under another
  field than \<open>audio\<close>, a second file, a body that cannot be parsed), the handler does not
  run and the middleware's error is what is answered. Whatever the request, the signer
  is only ever called with a secret and a key id that are set and not empty, and the
  provider is only ever called when both are.
\<close>

theorem missing_credentials:
  "(unset (access_key cfg) \<or> unset (access_secret cfg) \<longrightarrow>
      fst (api_identify rt pf cfg req) = [] \<and>
      snd (api_identify rt pf cfg req) =
        (case upload_single pf ''audio'' req of
           Inl e \<Rightarrow> Unhandled e
         | Inr None \<Rightarrow> Reply 400 (JObj [(''error'', JStr ''No audio file provided'')])
         | Inr (Some f) \<Rightarrow>
             Reply 500 (JObj [(''error'', JStr ''ACRCloud API keys not configured'')]))) \<and>
   (\<forall>t k. Signed t k \<in> set (fst (api_identify rt pf cfg req)) \<longrightarrow>
      k \<noteq> [] \<and> access_secret cfg = Some k \<and>
      (\<exists>a. a \<noteq> [] \<and> access_key cfg = Some a)) \<and>
   (\<forall>url form. Fetched url form \<in> set (fst (api_identify rt pf cfg req)) \<longrightarrow>
      \<not> unset (access_key cfg) \<and> \<not> unset (access_secret cfg))"
proof -
  have calls: "fst (api_identify rt pf cfg req) = [] \<or>
      (\<exists>f. upload_single pf ''audio'' req = Inr (Some f) \<and>
           \<not> unset (access_key cfg) \<and> \<not> unset (access_secret cfg) \<and>
           fst (api_identify rt pf cfg req) = fst (identify rt pf cfg (Some f)))"
    by (cases "upload_single pf ''audio'' req")
       (auto simp: api_identify_def identify_def split: option.splits)
  have a: "fst (api_identify rt pf cfg req) = []"
    if "unset (access_key cfg) \<or> unset (access_secret cfg)"
    using calls that by auto
  have b: "snd (api_identify rt pf cfg req) =
        (case upload_single pf ''audio'' req of
           Inl e \<Rightarrow> Unhandled e
         | Inr None \<Rightarrow> Reply 400 (JObj [(''error'', JStr ''No audio file provided'')])
         | Inr (Some f) \<Rightarrow>
             Reply 500 (JObj [(''error'', JStr ''ACRCloud API keys not configured'')]))"
    if "unset (access_key cfg) \<or> unset (access_secret cfg)"
    using that
    by (cases "upload_single pf ''audio'' req")
       (auto simp: api_identify_def identify_def split: option.splits)
  have c: "k \<noteq> [] \<and> access_secret cfg = Some k \<and> (\<exists>a. a \<noteq> [] \<and> access_key cfg = Some a)"
    if "Signed t k \<in> set (fst (api_identify rt pf cfg req))" for t k
  proof -
    from calls that obtain f where
      u: "\<not> unset (access_key cfg)" "\<not> unset (access_secret cfg)" and
      "Signed t k \<in> set (fst (identify rt pf cfg (Some f)))"
      by auto
    then have "k = env_text (access_secret cfg)"
      by (simp add: identify_def Let_def)
    with u show ?thesis
      by (cases "access_key cfg"; cases "access_secret cfg")
         (simp_all add: unset_def env_text_def)
  qed
  have d: "\<not> unset (access_key cfg) \<and> \<not> unset (access_secret cfg)"
    if "Fetched url form \<in> set (fst (api_identify rt pf cfg req))" for url form
    using calls that by auto
  from a b c d show ?thesis by blast
qed

text \<open>
  A request with a file and no access key, and one with both credentials.
\<close>

theorem missing_credentials_witness:
  "\<forall>rt (pf :: platform).
     unset (access_key (acrcloudConfig None (Some ''s3cret''))) \<and>
     api_identify rt pf (acrcloudConfig None (Some ''s3cret'')) (Body [(''audio'', example_upload)]) =
       ([], Reply 500 (JObj [(''error'', JStr ''ACRCloud API keys not configured'')])) \<and>
     Signed (''POST\<newline>/v1/identify\<newline>abc123\<newline>audio\<newline>1\<newline>'' @
               NumberToString rt (Math_floor (num_div (Date_now pf 0) (Fin 1000)))) ''s3cret''
       \<in> set (fst (api_identify rt pf (acrcloudConfig (Some ''abc123'') (Some ''s3cret''))
                   (Body [(''audio'', example_upload)]))) \<and>
     access_key (acrcloudConfig (Some ''abc123'') (Some ''s3cret'')) = Some ''abc123''"
proof (intro allI)
  fix rt and pf :: platform
  let ?s = "Signed (''POST\<newline>/v1/identify\<newline>abc123\<newline>audio\<newline>1\<newline>'' @
               NumberToString rt (Math_floor (num_div (Date_now pf 0) (Fin 1000)))) ''s3cret''"
  let ?cfg = "acrcloudConfig (Some ''abc123'') (Some ''s3cret'')"
  let ?req = "Body [(''audio'', example_upload)]"
  have f: "upload_single pf ''audio'' ?req = Inr (Some example_upload)"
    by (simp add: upload_single_def example_upload_def file_size_def fileSize_def)
  have u: "unset (access_key (acrcloudConfig None (Some ''s3cret'')))"
    by (simp add: acrcloudConfig_def unset_def)
  with missing_credentials [of "acrcloudConfig None (Some ''s3cret'')" rt pf ?req] f
  have a: "api_identify rt pf (acrcloudConfig None (Some ''s3cret'')) ?req =
       ([], Reply 500 (JObj [(''error'', JStr ''ACRCloud API keys not configured'')]))"
    by (simp add: prod_eq_iff)
  have m: "?s \<in> set (fst (api_identify rt pf ?cfg ?req))"
    by (simp add: api_identify_def f identify_def Let_def acrcloudConfig_def unset_def
          env_text_def stringToSign_def)
  with missing_credentials [of ?cfg rt pf ?req]
  have "\<exists>a. a \<noteq> [] \<and> access_key ?cfg = Some a" by blast
  then have k: "access_key ?cfg = Some ''abc123''" by (simp add: acrcloudConfig_def)
  from u a m k show "unset (access_key (acrcloudConfig None (Some ''s3cret''))) \<and>
     api_identify rt pf (acrcloudConfig None (Some ''s3cret'')) ?req =
       ([], Reply 500 (JObj [(''error'', JStr ''ACRCloud API keys not configured'')])) \<and>
     ?s \<in> set (fst (api_identify rt pf ?cfg ?req)) \<and>
     access_key ?cfg = Some ''abc123''"
    by blast
qed

text \<open>
  Claim C9 as stated fails on requests that are answered before the credentials are
  looked at: with no credentials at all, a request without a file gets the missing-file
  error, and a request with a file of 10485761 bytes, or with its file under the field
  \<open>file\<close>, gets the error of the upload middleware.
\<close>

theorem other_errors_precede_credentials:
  "\<forall>rt (pf :: platform).
     unset (access_key (acrcloudConfig None None)) \<and>
     api_identify rt pf (acrcloudConfig None None) (Body []) =
       ([], Reply 400 (JObj [(''error'', JStr ''No audio file provided'')])) \<and>
     api_identify rt pf (acrcloudConfig None None)
         (Body [(''audio'',
                 \<lparr>originalname = ''long.wav'', mimetype = ''audio/wav'',
                  buffer = replicate 10485761 (CHR ''a'')\<rparr>)]) =
       ([], Unhandled LIMIT_FILE_SIZE) \<and>
     api_identify rt pf (acrcloudConfig None None) (Body [(''file'', example_upload)]) =
       ([], Unhandled LIMIT_UNEXPECTED_FILE)"
  by (simp add: api_identify_def upload_single_def identify_def acrcloudConfig_def unset_def
        file_size_def fileSize_def example_upload_def)

end
